theory Spec2Isabelle
  imports Complex_Main "HOL-Library.Word"
begin

section \<open>osgearth_viewer: data model\<close>

text \<open>
  The viewer is glue over OpenSceneGraph and osgEarth. The objects those libraries own
  are kept in stores indexed by address; a pointer variable of the program is an
  \<open>addr option\<close>, with \<open>None\<close> for the null pointer. Dereferencing a null pointer is
  the error \<open>NullDereference\<close>. Values of type double and float are carried as
  \<open>real\<close>: the program passes them on and never computes with them.
\<close>

type_synonym addr = nat

datatype error = NullDereference

text \<open>osgEarth::Config: a key, a value and child elements.\<close>

datatype config = Config (conf_key: string) (conf_defaultValue: string) (conf_children: "config list")

text \<open>
  Modelled from the spec: the osgEarth::Config class is not part of the source file.
  \<open>children\<close> returns the child elements with a key, \<open>child\<close> the first of them or
  an empty Config, \<open>empty\<close> holds of a Config with no key, no value and no children,
  \<open>value\<close> is the value of the child element with the key or the empty string.
\<close>

definition conf_children_of :: "config \<Rightarrow> string \<Rightarrow> config list" where
  "conf_children_of c k = filter (\<lambda>x. conf_key x = k) (conf_children c)"

definition conf_hasChild :: "config \<Rightarrow> string \<Rightarrow> bool" where
  "conf_hasChild c k = (conf_children_of c k \<noteq> [])"

definition conf_child :: "config \<Rightarrow> string \<Rightarrow> config" where
  "conf_child c k = (case conf_children_of c k of [] \<Rightarrow> Config [] [] [] | x # _ \<Rightarrow> x)"

definition conf_empty :: "config \<Rightarrow> bool" where
  "conf_empty c = (conf_key c = [] \<and> conf_defaultValue c = [] \<and> conf_children c = [])"

definition conf_value :: "config \<Rightarrow> string \<Rightarrow> string" where
  "conf_value c k = (if conf_hasChild c k then conf_defaultValue (conf_child c k) else [])"

text \<open>A viewpoint is built from a Config and gives it back with \<open>getConfig\<close>.\<close>

datatype viewpoint = Viewpoint (getConfig: config)

definition getName :: "viewpoint \<Rightarrow> string" where
  "getName vp = conf_value (getConfig vp) ''name''"

type_synonym vec3d = "real \<times> real \<times> real"

definition vx :: "vec3d \<Rightarrow> real" where "vx v = fst v"
definition vy :: "vec3d \<Rightarrow> real" where "vy v = fst (snd v)"

datatype angularFormat = FORMAT_DECIMAL_DEGREES | FORMAT_DEGREES_MINUTES_SECONDS

text \<open>The map node found in the loaded scene, as far as the program reads it.\<close>

record mapNode =
  externalConfig :: config
  isGeocentric :: bool
  worldPointToMapPoint :: "vec3d \<Rightarrow> vec3d"

text \<open>Annotation data attached to a scene node by the KML loader.\<close>

record annotationData =
  ann_name :: string
  ann_viewpoint :: "viewpoint option"

text \<open>A scene graph node: its identity, its node mask, its user data and its children.\<close>

datatype scene =
  SceneNode (node_id: nat) (node_mask: "32 word") (node_userData: "annotationData option")
    (node_children: "scene list")

text \<open>
  The library calls whose results the program only passes on: the formatters, the XML
  writer, the string conversions of osgEarth::as, the file loaders, findMapNode and the
  status the viewer's frame loop returns.
\<close>

record lib =
  mgrs_format :: "real \<Rightarrow> real \<Rightarrow> string"
  latlong_format :: "angularFormat \<Rightarrow> real \<Rightarrow> nat \<Rightarrow> string"
  xml_store :: "config \<Rightarrow> string"
  as_double :: "string \<Rightarrow> real \<Rightarrow> real"
  as_bool :: "string \<Rightarrow> bool \<Rightarrow> bool"
  readNodeFiles :: "string list \<Rightarrow> scene option"
  findMapNode :: "scene \<Rightarrow> mapNode option"
  loadOceanSurface :: "mapNode \<Rightarrow> scene option"
  KML_load :: "string \<Rightarrow> mapNode \<Rightarrow> scene option"
  viewer_run :: int

text \<open>
  Config::value(key, fallback) for a double: the string value converted by osgEarth::as,
  which returns the fallback for the empty string.
\<close>

definition conf_value_double :: "lib \<Rightarrow> config \<Rightarrow> string \<Rightarrow> real \<Rightarrow> real" where
  "conf_value_double L c k fallback =
     (let r = conf_value c k in if r = [] then fallback else as_double L r fallback)"

definition conf_boolValue :: "lib \<Rightarrow> config \<Rightarrow> bool \<Rightarrow> bool" where
  "conf_boolValue L c fallback = as_bool L (conf_defaultValue c) fallback"

subsection \<open>Library objects\<close>

text \<open>
  Modelled from the spec: the EarthManipulator class is not part of the source file.
  \<open>getViewpoint\<close> returns the current viewpoint; \<open>setViewpoint\<close> starts a transition
  to a viewpoint with a duration in seconds, which is recorded as the flight in progress.
\<close>

record manip =
  m_current :: viewpoint
  m_arcViewpointTransitions :: bool
  m_flight :: "(viewpoint \<times> real) option"

definition getViewpoint :: "manip \<Rightarrow> viewpoint" where
  "getViewpoint m = m_current m"

definition setViewpoint :: "viewpoint \<Rightarrow> real \<Rightarrow> manip \<Rightarrow> manip" where
  "setViewpoint vp duration_s m = m\<lparr>m_flight := Some (vp, duration_s)\<rparr>"

definition new_EarthManipulator :: manip where
  "new_EarthManipulator =
     \<lparr>m_current = Viewpoint (Config [] [] []), m_arcViewpointTransitions = False, m_flight = None\<rparr>"

record hslider =
  sl_min :: real
  sl_max :: real
  sl_value :: real

text \<open>The three process-wide pointer variables, for the record of assignments.\<close>

datatype global = G_manip | G_controlPanel | G_sky

text \<open>Handlers of control events and of GUI events, with the members they hold.\<close>

datatype control_handler =
    SkySliderHandler
  | ToggleNodeHandler nat
  | ClickViewpointHandler viewpoint

datatype gui_handler =
    ViewpointHandler "viewpoint list"
  | MouseCoordsHandler addr "mapNode option"

datatype eventType =
  NONE | PUSH | RELEASE | DOUBLECLICK | DRAG | MOVE | KEYDOWN | KEYUP | FRAME | RESIZE | SCROLL

record guiEvent =
  getEventType :: eventType
  getKey :: int
  getX :: real
  getY :: real

text \<open>The view an event comes from: the world points its pick ray hits, nearest first.\<close>

record view =
  computeIntersections :: "real \<Rightarrow> real \<Rightarrow> vec3d list"

text \<open>
  The state of the application: the process-wide variables, the library objects they
  and the handlers point to, standard output, and what main has registered with the
  viewer. \<open>assigned\<close> records every assignment to one of the three pointer variables.
  \<open>useSky\<close>, \<open>useAutoClip\<close> and \<open>kmlFile\<close> are the local variables of main;
  \<open>root_children\<close> holds the scene nodes the loaders returned (the sky node and
  the control canvas, library nodes without user data, are left out).
\<close>

record app =
  s_manip :: "addr option"
  s_controlPanel :: "addr option"
  s_sky :: "addr option"
  s_dms :: bool
  s_mgrs :: bool
  s_ocean :: bool
  assigned :: "global list"
  next_addr :: addr
  manips :: "addr \<Rightarrow> manip"
  visible_of :: "addr \<Rightarrow> bool"
  text_of :: "addr \<Rightarrow> string"
  dateTime_of :: "addr \<Rightarrow> int \<times> int \<times> int \<times> real"
  nodeMask_of :: "nat \<Rightarrow> 32 word option"
  cout :: string
  gui_handlers :: "gui_handler list"
  control_handlers :: "control_handler list"
  viewpointGrid :: "(nat \<times> string) list"
  skySlider :: "hslider option"
  kmlGrid :: "(bool \<times> string) list"
  useSky :: bool
  useAutoClip :: bool
  kmlFile :: string
  autoClipPlaneCallback :: bool
  root_children :: "scene list"

section \<open>The event handlers\<close>

text \<open>usage: the lines sent to the notice stream and the status returned.\<close>

definition usage :: "string \<Rightarrow> string list \<times> int" where
  "usage msg =
     ([msg,
       [],
       ''USAGE: osgearth_viewer [options] file.earth'',
       ''   --sky           : activates the atmospheric model'',
       ''   --autoclip      : activates the auto clip-plane handler'',
       ''   --dms           : format coordinates as degrees/minutes/seconds'',
       ''   --mgrs          : format coordinates as MGRS'',
       ''   --ocean         : display an ocean surface layer, if found''],
      - 1)"

definition SkySliderHandler_onValueChanged :: "real \<Rightarrow> app \<Rightarrow> error + app" where
  "SkySliderHandler_onValueChanged v a =
     (case s_sky a of
        None \<Rightarrow> Inl NullDereference
      | Some sky \<Rightarrow> Inr (a\<lparr>dateTime_of := (dateTime_of a)(sky := (2011, 3, 6, v))\<rparr>))"

text \<open>The node is held by an observer pointer: a node that is gone is left alone.\<close>

definition ToggleNodeHandler_onValueChanged :: "nat \<Rightarrow> bool \<Rightarrow> app \<Rightarrow> error + app" where
  "ToggleNodeHandler_onValueChanged node v a =
     (case nodeMask_of a node of
        None \<Rightarrow> Inr a
      | Some _ \<Rightarrow> Inr (a\<lparr>nodeMask_of := (nodeMask_of a)(node := Some (if v then - 1 else 0))\<rparr>))"

definition ClickViewpointHandler_onClick :: "viewpoint \<Rightarrow> app \<Rightarrow> error + app" where
  "ClickViewpointHandler_onClick vp a =
     (case s_manip a of
        None \<Rightarrow> Inl NullDereference
      | Some m \<Rightarrow> Inr (a\<lparr>manips := (manips a)(m := setViewpoint vp 4.5 (manips a m))\<rparr>))"

definition MouseCoordsHandler_handle ::
  "lib \<Rightarrow> addr \<Rightarrow> mapNode option \<Rightarrow> guiEvent \<Rightarrow> view \<Rightarrow> app \<Rightarrow> error + bool \<times> app" where
  "MouseCoordsHandler_handle L label mapNode_ptr ea aa a =
     (if getEventType ea = MOVE \<or> getEventType ea = DRAG then
        (case computeIntersections aa (getX ea) (getY ea) of
           first # _ \<Rightarrow>
             (case mapNode_ptr of
                None \<Rightarrow> Inl NullDereference
              | Some mn \<Rightarrow>
                  (let lla = worldPointToMapPoint mn first;
                       ss = (if s_mgrs a then ''MGRS: '' @ mgrs_format L (vy lla) (vx lla) @ ''   ''
                             else []);
                       fFormat = (if s_dms a then FORMAT_DEGREES_MINUTES_SECONDS
                                  else FORMAT_DECIMAL_DEGREES);
                       ss = ss @ ''Lat: '' @ latlong_format L fFormat (vy lla) 4 @ ''  ''
                               @ ''Lon: '' @ latlong_format L fFormat (vx lla) 5
                   in Inr (False, a\<lparr>text_of := (text_of a)(label := ss)\<rparr>)))
         | [] \<Rightarrow> Inr (False, a\<lparr>text_of := (text_of a)(label := [])\<rparr>))
      else Inr (False, a))"

text \<open>
  ViewpointHandler::handle. Key codes are small and not negative, so the subtraction
  of the code of the key 1 is done on \<open>int\<close> without overflow.
\<close>

definition ViewpointHandler_handle ::
  "lib \<Rightarrow> viewpoint list \<Rightarrow> guiEvent \<Rightarrow> app \<Rightarrow> error + bool \<times> app" where
  "ViewpointHandler_handle L viewpoints ea a =
     (if getEventType ea = KEYDOWN then
        (let index = getKey ea - of_char CHR ''1'' in
         if index \<ge> 0 \<and> index < int (length viewpoints) then
           (case s_manip a of
              None \<Rightarrow> Inl NullDereference
            | Some m \<Rightarrow>
                Inr (False, a\<lparr>manips := (manips a)(m := setViewpoint (viewpoints ! nat index) 4.5 (manips a m))\<rparr>))
         else if getKey ea = of_char CHR ''v'' then
           (case s_manip a of
              None \<Rightarrow> Inl NullDereference
            | Some m \<Rightarrow>
                (let vp = getViewpoint (manips a m)
                 in Inr (False, a\<lparr>cout := cout a @ xml_store L (getConfig vp) @ [CHR 0x0A]\<rparr>)))
         else if getKey ea = of_char CHR ''?'' then
           (case s_controlPanel a of
              None \<Rightarrow> Inl NullDereference
            | Some panel \<Rightarrow>
                Inr (False, a\<lparr>visible_of := (visible_of a)(panel := \<not> visible_of a panel)\<rparr>))
         else Inr (False, a))
      else Inr (False, a))"


section \<open>Startup\<close>

text \<open>
  Modelled from the spec: the osg::ArgumentParser class is not part of the source file.
  \<open>read\<close> of a flag looks for the first argument after the program name that equals
  the flag, removes it and returns true. \<open>read\<close> of a flag with a string parameter
  needs an argument after the flag: it assigns that argument and removes both.
  The argument vector is the one main's reads see, after the Viewer constructor has
  taken its own options.
\<close>

definition arguments_read :: "string \<Rightarrow> string list \<Rightarrow> bool \<times> string list" where
  "arguments_read str argv =
     (case argv of
        [] \<Rightarrow> (False, [])
      | prog # rest \<Rightarrow> if str \<in> set rest then (True, prog # remove1 str rest) else (False, argv))"

fun read_parameter :: "string \<Rightarrow> string list \<Rightarrow> (string \<times> string list) option" where
  "read_parameter str (x # y # rest) =
     (if x = str then Some (y, rest)
      else map_option (\<lambda>(v, r). (v, x # r)) (read_parameter str (y # rest)))"
| "read_parameter str _ = None"

definition arguments_read_string :: "string \<Rightarrow> string \<Rightarrow> string list \<Rightarrow> string \<times> string list" where
  "arguments_read_string str val argv =
     (case argv of
        [] \<Rightarrow> (val, [])
      | prog # rest \<Rightarrow>
          (case read_parameter str rest of
             None \<Rightarrow> (val, argv)
           | Some (v, r) \<Rightarrow> (v, prog # r)))"

text \<open>Assignments to the three pointer variables; each is recorded.\<close>

definition assign_s_manip :: "addr \<Rightarrow> app \<Rightarrow> app" where
  "assign_s_manip p a = a\<lparr>s_manip := Some p, assigned := assigned a @ [G_manip]\<rparr>"

definition assign_s_controlPanel :: "addr \<Rightarrow> app \<Rightarrow> app" where
  "assign_s_controlPanel p a = a\<lparr>s_controlPanel := Some p, assigned := assigned a @ [G_controlPanel]\<rparr>"

definition assign_s_sky :: "addr \<Rightarrow> app \<Rightarrow> app" where
  "assign_s_sky p a = a\<lparr>s_sky := Some p, assigned := assigned a @ [G_sky]\<rparr>"

text \<open>The state at program start: the static initialisers, and nothing registered.\<close>

definition initial_app :: app where
  "initial_app =
     \<lparr>s_manip = None, s_controlPanel = None, s_sky = None,
      s_dms = False, s_mgrs = False, s_ocean = False,
      assigned = [], next_addr = 0,
      manips = (\<lambda>_. new_EarthManipulator), visible_of = (\<lambda>_. True), text_of = (\<lambda>_. []),
      dateTime_of = (\<lambda>_. (0, 0, 0, 0)), nodeMask_of = (\<lambda>_. None), cout = [],
      gui_handlers = [], control_handlers = [], viewpointGrid = [], skySlider = None,
      kmlGrid = [], useSky = False, useAutoClip = False, kmlFile = [],
      autoClipPlaneCallback = False, root_children = []\<rparr>"

text \<open>
  createControlPanel: a row per viewpoint with its number and name and a click handler,
  the sky-time slider when there is a sky node, and the assignment of the panel.
  Colours, margins and alignment are left out.
\<close>

definition createControlPanel :: "viewpoint list \<Rightarrow> app \<Rightarrow> app" where
  "createControlPanel vps a =
     (let main = next_addr a;
          a = a\<lparr>next_addr := main + 1, visible_of := (visible_of a)(main := True)\<rparr>;
          a = (if length vps > 0 then
                 a\<lparr>viewpointGrid :=
                      map (\<lambda>i. (i + 1, if getName (vps ! i) = [] then ''<no name>'' else getName (vps ! i)))
                        [0 ..< length vps],
                   control_handlers := control_handlers a @ map ClickViewpointHandler vps\<rparr>
               else a);
          a = (if s_sky a \<noteq> None then
                 a\<lparr>skySlider := Some \<lparr>sl_min = 0.0, sl_max = 24.0, sl_value = 18.0\<rparr>,
                   control_handlers := control_handlers a @ [SkySliderHandler]\<rparr>
               else a)
      in assign_s_controlPanel main a)"

text \<open>
  KMLUIBuilder: the visitor walks a node and then its children; each node that carries
  annotation data gives a row.
\<close>

fun KMLUIBuilder_apply :: "scene \<Rightarrow> (nat \<times> 32 word \<times> annotationData) list" where
  "KMLUIBuilder_apply (SceneNode n nodeMask d cs) =
     (case d of None \<Rightarrow> [] | Some data \<Rightarrow> [(n, nodeMask, data)]) @ concat (map KMLUIBuilder_apply cs)"

definition KMLUIBuilder_row :: "nat \<times> 32 word \<times> annotationData \<Rightarrow> app \<Rightarrow> app" where
  "KMLUIBuilder_row r a =
     (case r of (n, nodeMask, data) \<Rightarrow>
        a\<lparr>nodeMask_of := (nodeMask_of a)(n := Some nodeMask),
          kmlGrid := kmlGrid a @ [(nodeMask \<noteq> 0, if ann_name data = [] then ''<unnamed>'' else ann_name data)],
          control_handlers := control_handlers a @ [ToggleNodeHandler n]
             @ (case ann_viewpoint data of None \<Rightarrow> [] | Some vp \<Rightarrow> [ClickViewpointHandler vp])\<rparr>)"

definition KMLUIBuilder_accept :: "scene list \<Rightarrow> app \<Rightarrow> app" where
  "KMLUIBuilder_accept children a = fold KMLUIBuilder_row (concat (map KMLUIBuilder_apply children)) a"

text \<open>addMouseCoords: the label, and the handler, whose constructor reads the map node.\<close>

definition addMouseCoords :: "mapNode option \<Rightarrow> app \<Rightarrow> error + app" where
  "addMouseCoords mapNode_ptr a =
     (let mouseCoords = next_addr a;
          a = a\<lparr>next_addr := mouseCoords + 1, text_of := (text_of a)(mouseCoords := [])\<rparr>
      in case mapNode_ptr of
           None \<Rightarrow> Inl NullDereference
         | Some _ \<Rightarrow> Inr (a\<lparr>gui_handlers := gui_handlers a @ [MouseCoordsHandler mouseCoords mapNode_ptr]\<rparr>))"

text \<open>main, up to the call of the viewer's run: the flags, the load, and the set-up.\<close>

definition read_flags :: "string list \<Rightarrow> app \<Rightarrow> app \<times> string list" where
  "read_flags argv a =
     (let (autoclip, arguments) = arguments_read ''--autoclip'' argv;
          (sky, arguments) = arguments_read ''--sky'' arguments;
          (ocean, arguments) = arguments_read ''--ocean'' arguments;
          (dms, arguments) = arguments_read ''--dms'' arguments;
          (mgrs, arguments) = arguments_read ''--mgrs'' arguments;
          (kml, arguments) = arguments_read_string ''--kml'' [] arguments
      in (a\<lparr>useAutoClip := autoclip, useSky := sky, s_ocean := ocean, s_dms := dms,
            s_mgrs := mgrs, kmlFile := kml\<rparr>, arguments))"

definition setup_geocentric :: "lib \<Rightarrow> mapNode \<Rightarrow> app \<Rightarrow> app" where
  "setup_geocentric L mn a =
     (let externals = externalConfig mn;
          skyConf = conf_child externals ''sky'';
          a = (if \<not> conf_empty skyConf then a\<lparr>useSky := True\<rparr> else a);
          a = (if useSky a then
                 (let hours = conf_value_double L skyConf ''hours'' 12.0;
                      sky = next_addr a
                  in assign_s_sky sky
                       (a\<lparr>next_addr := sky + 1,
                          dateTime_of := (dateTime_of a)(sky := (2011, 3, 6, hours))\<rparr>))
               else a);
          a = (if s_ocean a then
                 a\<lparr>root_children := root_children a
                      @ (case loadOceanSurface L mn of None \<Rightarrow> [] | Some ocean \<Rightarrow> [ocean])\<rparr>
               else a);
          a = (if conf_hasChild externals ''autoclip'' then
                 a\<lparr>useAutoClip := conf_boolValue L (conf_child externals ''autoclip'') (useAutoClip a)\<rparr>
               else a)
      in if s_sky a \<noteq> None \<or> s_ocean a \<or> useAutoClip a then a\<lparr>autoClipPlaneCallback := True\<rparr>
         else a)"

definition load_kml :: "lib \<Rightarrow> mapNode \<Rightarrow> app \<Rightarrow> app" where
  "load_kml L mn a =
     (if kmlFile a \<noteq> [] then
        (case KML_load L (kmlFile a) mn of
           None \<Rightarrow> a
         | Some kml \<Rightarrow>
             (let a = a\<lparr>root_children := root_children a @ [kml]\<rparr>
              in KMLUIBuilder_accept (root_children a) a))
      else a)"

definition register_viewpoints :: "mapNode \<Rightarrow> app \<Rightarrow> viewpoint list \<times> app" where
  "register_viewpoints mn a =
     (let children = conf_children_of (externalConfig mn) ''viewpoint''
      in if length children > 0 then
           (let viewpoints = map Viewpoint children
            in (viewpoints, a\<lparr>gui_handlers := gui_handlers a @ [ViewpointHandler viewpoints]\<rparr>))
         else ([], a))"

definition setup_mapNode :: "lib \<Rightarrow> mapNode \<Rightarrow> app \<Rightarrow> error + app" where
  "setup_mapNode L mn a =
     (let a = (if isGeocentric mn then setup_geocentric L mn a else a);
          (viewpoints, a) = register_viewpoints mn a;
          a = (if length viewpoints > 0 \<or> s_sky a \<noteq> None then createControlPanel viewpoints a
               else a)
      in case addMouseCoords (Some mn) a of
           Inl e \<Rightarrow> Inl e
         | Inr a \<Rightarrow> Inr (load_kml L mn a))"

definition create_manipulator :: "scene \<Rightarrow> app \<Rightarrow> app" where
  "create_manipulator earthNode a =
     (let m = next_addr a;
          a = assign_s_manip m
                (a\<lparr>next_addr := m + 1,
                   manips := (manips a)(m := new_EarthManipulator\<lparr>m_arcViewpointTransitions := True\<rparr>)\<rparr>)
      in a\<lparr>root_children := [earthNode]\<rparr>)"

datatype setup_result = UsageExit "string list" int | SetupCrash error | Ready app

definition main_setup :: "lib \<Rightarrow> string list \<Rightarrow> setup_result" where
  "main_setup L argv =
     (let (a, arguments) = read_flags argv initial_app
      in case readNodeFiles L arguments of
           None \<Rightarrow> (case usage ''Unable to load earth model.'' of (lines, status) \<Rightarrow> UsageExit lines status)
         | Some earthNode \<Rightarrow>
             (let a = create_manipulator earthNode a
              in case findMapNode L earthNode of
                   None \<Rightarrow> Ready a
                 | Some mn \<Rightarrow>
                     (case setup_mapNode L mn a of Inl e \<Rightarrow> SetupCrash e | Inr a \<Rightarrow> Ready a)))"

section \<open>The interactive session\<close>

text \<open>
  What happens while the viewer runs: a GUI event is offered to the registered GUI
  handlers in turn, a control event goes to a handler of a control, the manipulator
  moves the camera, the scene graph drops a node.
\<close>

datatype control_event = ValueChanged_float real | ValueChanged_bool bool | Click

datatype session_event =
    GuiEvent guiEvent view
  | ControlEvent nat control_event
  | CameraMoved viewpoint
  | NodeDeleted nat

fun fire :: "control_handler \<Rightarrow> control_event \<Rightarrow> app \<Rightarrow> error + app" where
  "fire SkySliderHandler (ValueChanged_float v) a = SkySliderHandler_onValueChanged v a"
| "fire (ToggleNodeHandler n) (ValueChanged_bool v) a = ToggleNodeHandler_onValueChanged n v a"
| "fire (ClickViewpointHandler vp) Click a = ClickViewpointHandler_onClick vp a"
| "fire _ _ a = Inr a"

fun handle_gui :: "lib \<Rightarrow> gui_handler \<Rightarrow> guiEvent \<Rightarrow> view \<Rightarrow> app \<Rightarrow> error + bool \<times> app" where
  "handle_gui L (ViewpointHandler vps) ea aa a = ViewpointHandler_handle L vps ea a"
| "handle_gui L (MouseCoordsHandler label mn) ea aa a = MouseCoordsHandler_handle L label mn ea aa a"

fun dispatch :: "lib \<Rightarrow> gui_handler list \<Rightarrow> guiEvent \<Rightarrow> view \<Rightarrow> app \<Rightarrow> error + app" where
  "dispatch L [] ea aa a = Inr a"
| "dispatch L (h # hs) ea aa a =
     (case handle_gui L h ea aa a of
        Inl e \<Rightarrow> Inl e
      | Inr (handled, a') \<Rightarrow> if handled then Inr a' else dispatch L hs ea aa a')"

fun step :: "lib \<Rightarrow> session_event \<Rightarrow> app \<Rightarrow> error + app" where
  "step L (GuiEvent ea aa) a = dispatch L (gui_handlers a) ea aa a"
| "step L (ControlEvent i ce) a =
     (if i < length (control_handlers a) then fire (control_handlers a ! i) ce a else Inr a)"
| "step L (CameraMoved vp) a =
     (case s_manip a of
        None \<Rightarrow> Inr a
      | Some m \<Rightarrow> Inr (a\<lparr>manips := (manips a)(m := (manips a m)\<lparr>m_current := vp\<rparr>)\<rparr>))"
| "step L (NodeDeleted n) a = Inr (a\<lparr>nodeMask_of := (nodeMask_of a)(n := None)\<rparr>)"

fun run :: "lib \<Rightarrow> session_event list \<Rightarrow> app \<Rightarrow> error + app" where
  "run L [] a = Inr a"
| "run L (e # es) a = (case step L e a of Inl err \<Rightarrow> Inl err | Inr a' \<Rightarrow> run L es a')"

text \<open>
  main: what is sent to the notice stream, what is written to standard output, and the
  exit status; or a crash.
\<close>

datatype outcome = Exit "string list" string int | Crash error

definition main :: "lib \<Rightarrow> string list \<Rightarrow> session_event list \<Rightarrow> outcome" where
  "main L argv events =
     (case main_setup L argv of
        UsageExit lines status \<Rightarrow> Exit lines [] status
      | SetupCrash e \<Rightarrow> Crash e
      | Ready a \<Rightarrow>
          (case run L events a of
             Inl e \<Rightarrow> Crash e
           | Inr a' \<Rightarrow> Exit [] (cout a') (viewer_run L)))"

section \<open>Auxiliary definitions for the statements\<close>

text \<open>The arguments main leaves for the scene loader, and the map node main finds.\<close>

definition positional :: "string list \<Rightarrow> string list" where
  "positional argv = snd (read_flags argv initial_app)"

definition found_mapNode :: "lib \<Rightarrow> string list \<Rightarrow> mapNode option" where
  "found_mapNode L argv =
     (case readNodeFiles L (positional argv) of None \<Rightarrow> None | Some earthNode \<Rightarrow> findMapNode L earthNode)"

definition loaded_viewpoints :: "mapNode \<Rightarrow> viewpoint list" where
  "loaded_viewpoints mn = map Viewpoint (conf_children_of (externalConfig mn) ''viewpoint'')"

text \<open>
  What the handlers rely on: the manipulator exists, a registered ViewpointHandler comes
  with a control panel, a registered MouseCoordsHandler holds a map node, and a
  registered SkySliderHandler comes with a sky node.
\<close>

definition handlers_ok :: "app \<Rightarrow> bool" where
  "handlers_ok a \<longleftrightarrow>
     s_manip a \<noteq> None
     \<and> ((\<exists>vps. ViewpointHandler vps \<in> set (gui_handlers a)) \<longrightarrow> s_controlPanel a \<noteq> None)
     \<and> (\<forall>label. MouseCoordsHandler label None \<notin> set (gui_handlers a))
     \<and> (SkySliderHandler \<in> set (control_handlers a) \<longrightarrow> s_sky a \<noteq> None)"

text \<open>Two states that differ at most in the library objects and in standard output.\<close>

definition same_setup :: "app \<Rightarrow> app \<Rightarrow> bool" where
  "same_setup a a' \<longleftrightarrow>
     s_manip a' = s_manip a \<and> s_controlPanel a' = s_controlPanel a \<and> s_sky a' = s_sky a
     \<and> s_dms a' = s_dms a \<and> s_mgrs a' = s_mgrs a \<and> s_ocean a' = s_ocean a
     \<and> assigned a' = assigned a \<and> next_addr a' = next_addr a
     \<and> gui_handlers a' = gui_handlers a \<and> control_handlers a' = control_handlers a
     \<and> viewpointGrid a' = viewpointGrid a \<and> skySlider a' = skySlider a
     \<and> kmlGrid a' = kmlGrid a \<and> useSky a' = useSky a \<and> useAutoClip a' = useAutoClip a
     \<and> kmlFile a' = kmlFile a \<and> autoClipPlaneCallback a' = autoClipPlaneCallback a
     \<and> root_children a' = root_children a"

text \<open>The argument vector after the five flags have been read.\<close>

definition without_flags :: "string list \<Rightarrow> string list" where
  "without_flags argv =
     (case argv of
        [] \<Rightarrow> []
      | prog # rest \<Rightarrow>
          prog # remove1 ''--mgrs'' (remove1 ''--dms'' (remove1 ''--ocean''
                   (remove1 ''--sky'' (remove1 ''--autoclip'' rest)))))"

text \<open>The state before the mouse-coordinates label and the KML file are added.\<close>

definition panel_stage :: "lib \<Rightarrow> mapNode \<Rightarrow> app \<Rightarrow> app" where
  "panel_stage L mn a =
     (let a = (if isGeocentric mn then setup_geocentric L mn a else a);
          (viewpoints, a) = register_viewpoints mn a
      in if length viewpoints > 0 \<or> s_sky a \<noteq> None then createControlPanel viewpoints a else a)"

text \<open>The state after the flags are read, and the state when the manipulator is set.\<close>

definition flags_app :: "string list \<Rightarrow> app" where
  "flags_app argv = fst (read_flags argv initial_app)"

definition fresh :: "app \<Rightarrow> bool" where
  "fresh a \<longleftrightarrow>
     gui_handlers a = [] \<and> control_handlers a = [] \<and> s_sky a = None \<and> s_controlPanel a = None
     \<and> skySlider a = None \<and> assigned a = [G_manip] \<and> s_manip a \<noteq> None"

text \<open>The state main hands to the viewer when the scene has a map node.\<close>

definition ready_app :: "lib \<Rightarrow> mapNode \<Rightarrow> scene \<Rightarrow> string list \<Rightarrow> app" where
  "ready_app L mn earthNode argv =
     (let p = panel_stage L mn (create_manipulator earthNode (flags_app argv))
      in load_kml L mn
           (p\<lparr>next_addr := next_addr p + 1, text_of := (text_of p)(next_addr p := []),
              gui_handlers := gui_handlers p @ [MouseCoordsHandler (next_addr p) (Some mn)]\<rparr>))"

section \<open>An example scene\<close>

text \<open>
  A geocentric map with \<open>n\<close> viewpoints, a sky element with an hour and an autoclip
  element with the value false; a library that loads it from the file demo.earth.
\<close>

definition example_viewpoint :: config where
  "example_viewpoint = Config ''viewpoint'' [] [Config ''name'' ''Home'' []]"

definition example_mapNode :: "nat \<Rightarrow> mapNode" where
  "example_mapNode n =
     \<lparr>externalConfig = Config ''external'' []
         (replicate n example_viewpoint
            @ [Config ''sky'' [] [Config ''hours'' ''9'' []], Config ''autoclip'' ''false'' []]),
      isGeocentric = True,
      worldPointToMapPoint = (\<lambda>p. p)\<rparr>"

definition example_earth :: scene where
  "example_earth = SceneNode 0 (- 1) None []"

definition example_lib :: "nat \<Rightarrow> lib" where
  "example_lib n =
     \<lparr>mgrs_format = (\<lambda>lat lon. ''18SUJ2337106519''),
      latlong_format = (\<lambda>f v p. if f = FORMAT_DEGREES_MINUTES_SECONDS then ''dms'' else ''deg''),
      xml_store = (\<lambda>c. conf_key c),
      as_double = (\<lambda>s d. if s = ''9'' then 9 else d),
      as_bool = (\<lambda>s d. if s = ''true'' then True else if s = ''false'' then False else d),
      readNodeFiles = (\<lambda>args. if args = [''osgearth_viewer'', ''demo.earth''] then Some example_earth
                               else None),
      findMapNode = (\<lambda>_. Some (example_mapNode n)),
      loadOceanSurface = (\<lambda>_. None),
      KML_load = (\<lambda>_ _. None),
      viewer_run = 0\<rparr>"

definition example_argv :: "string list" where
  "example_argv = [''osgearth_viewer'', ''--autoclip'', ''--mgrs'', ''demo.earth'']"

definition example_app :: "nat \<Rightarrow> app" where
  "example_app n = ready_app (example_lib n) (example_mapNode n) example_earth example_argv"

definition key_event :: "char \<Rightarrow> guiEvent" where
  "key_event c = \<lparr>getEventType = KEYDOWN, getKey = of_char c, getX = 0, getY = 0\<rparr>"

definition example_view :: view where
  "example_view = \<lparr>computeIntersections = (\<lambda>x y. if x = 0 then [(1, 2, 3)] else [])\<rparr>"

text \<open>
  A geocentric map whose only external element is autoclip with the value false, and
  the library that loads it.
\<close>

definition autoclip_mapNode :: mapNode where
  "autoclip_mapNode =
     \<lparr>externalConfig = Config ''external'' [] [Config ''autoclip'' ''false'' []],
      isGeocentric = True,
      worldPointToMapPoint = (\<lambda>p. p)\<rparr>"

definition autoclip_lib :: lib where
  "autoclip_lib = (example_lib 0)\<lparr>findMapNode := (\<lambda>_. Some autoclip_mapNode)\<rparr>"

definition autoclip_argv :: "string list" where
  "autoclip_argv = [''osgearth_viewer'', ''--autoclip'', ''demo.earth'']"

definition autoclip_app :: app where
  "autoclip_app = ready_app autoclip_lib autoclip_mapNode example_earth autoclip_argv"

text \<open>
  A library that loads the scene but finds no map node in it, and the state main hands
  to the viewer then: the manipulator is set, the control panel and the sky node are
  null.
\<close>

definition nomap_lib :: lib where
  "nomap_lib = (example_lib 0)\<lparr>findMapNode := (\<lambda>_. None)\<rparr>"

definition nomap_app :: app where
  "nomap_app = create_manipulator example_earth (flags_app example_argv)"

section \<open>Lemmas on the session\<close>

lemma same_setup_refl: "same_setup a a"
  by (simp add: same_setup_def)

lemma same_setup_trans: "same_setup a b \<Longrightarrow> same_setup b c \<Longrightarrow> same_setup a c"
  by (simp add: same_setup_def)

lemma handlers_ok_same_setup: "handlers_ok a \<Longrightarrow> same_setup a a' \<Longrightarrow> handlers_ok a'"
  by (simp add: handlers_ok_def same_setup_def)

lemma fire_ok:
  "handlers_ok a \<Longrightarrow> h \<in> set (control_handlers a) \<Longrightarrow> \<exists>a'. fire h ce a = Inr a' \<and> same_setup a a'"
  by (cases "(h, ce, a)" rule: fire.cases)
     (auto simp: handlers_ok_def same_setup_def SkySliderHandler_onValueChanged_def
        ToggleNodeHandler_onValueChanged_def ClickViewpointHandler_onClick_def split: option.splits)

lemma handle_gui_ok:
  "handlers_ok a \<Longrightarrow> h \<in> set (gui_handlers a) \<Longrightarrow>
     \<exists>a'. handle_gui L h ea aa a = Inr (False, a') \<and> same_setup a a'"
  by (cases h)
     (auto simp: handlers_ok_def same_setup_def ViewpointHandler_handle_def
        MouseCoordsHandler_handle_def Let_def split: option.splits list.splits)

lemma dispatch_ok:
  "handlers_ok a \<Longrightarrow> set hs \<subseteq> set (gui_handlers a) \<Longrightarrow>
     \<exists>a'. dispatch L hs ea aa a = Inr a' \<and> same_setup a a'"
proof (induction hs arbitrary: a)
  case Nil
  then show ?case by (simp add: same_setup_refl)
next
  case (Cons h hs)
  obtain b where b: "handle_gui L h ea aa a = Inr (False, b)" "same_setup a b"
    using handle_gui_ok [of a h L ea aa] Cons.prems by auto
  have "handlers_ok b" "set hs \<subseteq> set (gui_handlers b)"
    using b(2) Cons.prems by (auto simp: same_setup_def intro: handlers_ok_same_setup)
  then obtain c where "dispatch L hs ea aa b = Inr c" "same_setup b c"
    using Cons.IH by blast
  then show ?case
    using b by (auto intro: same_setup_trans)
qed

lemma step_ok: "handlers_ok a \<Longrightarrow> \<exists>a'. step L e a = Inr a' \<and> same_setup a a'"
proof (cases e)
  case (GuiEvent ea aa)
  assume "handlers_ok a"
  then show ?thesis
    using dispatch_ok [of a "gui_handlers a" L ea aa] GuiEvent by simp
next
  case (ControlEvent i ce)
  assume "handlers_ok a"
  then show ?thesis
    using fire_ok [of a "control_handlers a ! i" ce] ControlEvent
    by (auto simp: same_setup_refl)
next
  case (CameraMoved vp)
  then show ?thesis
    by (cases "s_manip a") (auto simp: same_setup_def)
next
  case (NodeDeleted n)
  then show ?thesis
    by (simp add: same_setup_def)
qed

lemma run_ok: "handlers_ok a \<Longrightarrow> \<exists>a'. run L es a = Inr a' \<and> same_setup a a'"
proof (induction es arbitrary: a)
  case Nil
  then show ?case by (simp add: same_setup_refl)
next
  case (Cons e es)
  obtain b where b: "step L e a = Inr b" "same_setup a b"
    using step_ok [OF Cons.prems] by blast
  then have "handlers_ok b"
    using Cons.prems handlers_ok_same_setup by blast
  then obtain c where "run L es b = Inr c" "same_setup b c"
    using Cons.IH by blast
  then show ?case
    using b by (auto intro: same_setup_trans)
qed

section \<open>Lemmas on startup\<close>

lemma arguments_read_eq:
  "arguments_read str argv =
     (str \<in> set (tl argv), (case argv of [] \<Rightarrow> [] | prog # rest \<Rightarrow> prog # remove1 str rest))"
  by (cases argv) (simp_all add: arguments_read_def remove1_idem)

lemma read_flags_eq:
  "read_flags argv a =
     (a\<lparr>useAutoClip := ''--autoclip'' \<in> set (tl argv), useSky := ''--sky'' \<in> set (tl argv),
        s_ocean := ''--ocean'' \<in> set (tl argv), s_dms := ''--dms'' \<in> set (tl argv),
        s_mgrs := ''--mgrs'' \<in> set (tl argv),
        kmlFile := fst (arguments_read_string ''--kml'' [] (without_flags argv))\<rparr>,
      snd (arguments_read_string ''--kml'' [] (without_flags argv)))"
  by (cases argv)
     (simp_all add: read_flags_def arguments_read_eq without_flags_def Let_def split: prod.splits)

lemma read_parameter_Some:
  "read_parameter str xs = Some (v, r) \<Longrightarrow>
     \<exists>pre post. xs = pre @ str # v # post \<and> str \<notin> set pre \<and> r = pre @ post"
proof (induction str xs arbitrary: r rule: read_parameter.induct)
  case (1 str x y rest)
  show ?case
  proof (cases "x = str")
    case True
    then have "xs = [] @ str # v # rest \<and> str \<notin> set [] \<and> r = [] @ rest" if "xs = x # y # rest" for xs
      using "1.prems" that by simp
    then show ?thesis by blast
  next
    case False
    then obtain r' where r': "read_parameter str (y # rest) = Some (v, r')" "r = x # r'"
      using "1.prems" by auto
    then obtain pre post where "y # rest = pre @ str # v # post" "str \<notin> set pre" "r' = pre @ post"
      using "1.IH" False by blast
    then have "x # y # rest = (x # pre) @ str # v # post \<and> str \<notin> set (x # pre) \<and> r = (x # pre) @ post"
      using False r' by simp
    then show ?thesis by blast
  qed
qed simp_all

lemma setup_geocentric_same:
  "s_manip (setup_geocentric L mn a) = s_manip a"
  "s_controlPanel (setup_geocentric L mn a) = s_controlPanel a"
  "s_dms (setup_geocentric L mn a) = s_dms a"
  "s_mgrs (setup_geocentric L mn a) = s_mgrs a"
  "s_ocean (setup_geocentric L mn a) = s_ocean a"
  "gui_handlers (setup_geocentric L mn a) = gui_handlers a"
  "control_handlers (setup_geocentric L mn a) = control_handlers a"
  "skySlider (setup_geocentric L mn a) = skySlider a"
  "kmlFile (setup_geocentric L mn a) = kmlFile a"
  by (simp_all add: setup_geocentric_def Let_def assign_s_sky_def)

lemma setup_geocentric_sky:
  "useSky (setup_geocentric L mn a)
     = (useSky a \<or> \<not> conf_empty (conf_child (externalConfig mn) ''sky''))"
  "s_sky (setup_geocentric L mn a)
     = (if useSky a \<or> \<not> conf_empty (conf_child (externalConfig mn) ''sky'')
        then Some (next_addr a) else s_sky a)"
  "dateTime_of (setup_geocentric L mn a)
     = (if useSky a \<or> \<not> conf_empty (conf_child (externalConfig mn) ''sky'')
        then (dateTime_of a)(next_addr a :=
               (2011, 3, 6, conf_value_double L (conf_child (externalConfig mn) ''sky'') ''hours'' 12))
        else dateTime_of a)"
  "assigned (setup_geocentric L mn a)
     = assigned a @ (if useSky a \<or> \<not> conf_empty (conf_child (externalConfig mn) ''sky'')
                     then [G_sky] else [])"
  by (simp_all add: setup_geocentric_def Let_def assign_s_sky_def)

lemma setup_geocentric_autoclip:
  "useAutoClip (setup_geocentric L mn a)
     = (if conf_hasChild (externalConfig mn) ''autoclip''
        then conf_boolValue L (conf_child (externalConfig mn) ''autoclip'') (useAutoClip a)
        else useAutoClip a)"
  "autoClipPlaneCallback (setup_geocentric L mn a)
     = (autoClipPlaneCallback a \<or> s_sky (setup_geocentric L mn a) \<noteq> None \<or> s_ocean a
        \<or> useAutoClip (setup_geocentric L mn a))"
  by (auto simp: setup_geocentric_def Let_def assign_s_sky_def)

lemma register_viewpoints_eq:
  "register_viewpoints mn a =
     (loaded_viewpoints mn,
      if loaded_viewpoints mn = [] then a
      else a\<lparr>gui_handlers := gui_handlers a @ [ViewpointHandler (loaded_viewpoints mn)]\<rparr>)"
  by (simp add: register_viewpoints_def loaded_viewpoints_def Let_def)

lemma createControlPanel_same:
  "s_manip (createControlPanel vps a) = s_manip a"
  "s_sky (createControlPanel vps a) = s_sky a"
  "s_dms (createControlPanel vps a) = s_dms a"
  "s_mgrs (createControlPanel vps a) = s_mgrs a"
  "s_ocean (createControlPanel vps a) = s_ocean a"
  "gui_handlers (createControlPanel vps a) = gui_handlers a"
  "dateTime_of (createControlPanel vps a) = dateTime_of a"
  "useSky (createControlPanel vps a) = useSky a"
  "useAutoClip (createControlPanel vps a) = useAutoClip a"
  "kmlFile (createControlPanel vps a) = kmlFile a"
  "autoClipPlaneCallback (createControlPanel vps a) = autoClipPlaneCallback a"
  by (simp_all add: createControlPanel_def Let_def assign_s_controlPanel_def)

lemma createControlPanel_panel:
  "s_controlPanel (createControlPanel vps a) = Some (next_addr a)"
  "assigned (createControlPanel vps a) = assigned a @ [G_controlPanel]"
  "skySlider (createControlPanel vps a)
     = (if s_sky a \<noteq> None then Some \<lparr>sl_min = 0, sl_max = 24, sl_value = 18\<rparr> else skySlider a)"
  "control_handlers (createControlPanel vps a)
     = control_handlers a @ map ClickViewpointHandler vps
         @ (if s_sky a \<noteq> None then [SkySliderHandler] else [])"
  by (auto simp: createControlPanel_def Let_def assign_s_controlPanel_def)

lemma KMLUIBuilder_row_same:
  "s_manip (KMLUIBuilder_row r a) = s_manip a"
  "s_controlPanel (KMLUIBuilder_row r a) = s_controlPanel a"
  "s_sky (KMLUIBuilder_row r a) = s_sky a"
  "s_dms (KMLUIBuilder_row r a) = s_dms a"
  "s_mgrs (KMLUIBuilder_row r a) = s_mgrs a"
  "s_ocean (KMLUIBuilder_row r a) = s_ocean a"
  "assigned (KMLUIBuilder_row r a) = assigned a"
  "gui_handlers (KMLUIBuilder_row r a) = gui_handlers a"
  "skySlider (KMLUIBuilder_row r a) = skySlider a"
  "dateTime_of (KMLUIBuilder_row r a) = dateTime_of a"
  "useSky (KMLUIBuilder_row r a) = useSky a"
  "useAutoClip (KMLUIBuilder_row r a) = useAutoClip a"
  "kmlFile (KMLUIBuilder_row r a) = kmlFile a"
  "autoClipPlaneCallback (KMLUIBuilder_row r a) = autoClipPlaneCallback a"
  "SkySliderHandler \<in> set (control_handlers (KMLUIBuilder_row r a))
     \<longleftrightarrow> SkySliderHandler \<in> set (control_handlers a)"
  by (auto simp: KMLUIBuilder_row_def split: prod.splits option.splits)

lemma fold_KMLUIBuilder_row_same:
  "s_manip (fold KMLUIBuilder_row rs a) = s_manip a"
  "s_controlPanel (fold KMLUIBuilder_row rs a) = s_controlPanel a"
  "s_sky (fold KMLUIBuilder_row rs a) = s_sky a"
  "s_dms (fold KMLUIBuilder_row rs a) = s_dms a"
  "s_mgrs (fold KMLUIBuilder_row rs a) = s_mgrs a"
  "s_ocean (fold KMLUIBuilder_row rs a) = s_ocean a"
  "assigned (fold KMLUIBuilder_row rs a) = assigned a"
  "gui_handlers (fold KMLUIBuilder_row rs a) = gui_handlers a"
  "skySlider (fold KMLUIBuilder_row rs a) = skySlider a"
  "dateTime_of (fold KMLUIBuilder_row rs a) = dateTime_of a"
  "useSky (fold KMLUIBuilder_row rs a) = useSky a"
  "useAutoClip (fold KMLUIBuilder_row rs a) = useAutoClip a"
  "kmlFile (fold KMLUIBuilder_row rs a) = kmlFile a"
  "autoClipPlaneCallback (fold KMLUIBuilder_row rs a) = autoClipPlaneCallback a"
  "SkySliderHandler \<in> set (control_handlers (fold KMLUIBuilder_row rs a))
     \<longleftrightarrow> SkySliderHandler \<in> set (control_handlers a)"
  by (induction rs arbitrary: a) (simp_all add: KMLUIBuilder_row_same)

lemma load_kml_same:
  "s_manip (load_kml L mn a) = s_manip a"
  "s_controlPanel (load_kml L mn a) = s_controlPanel a"
  "s_sky (load_kml L mn a) = s_sky a"
  "s_dms (load_kml L mn a) = s_dms a"
  "s_mgrs (load_kml L mn a) = s_mgrs a"
  "s_ocean (load_kml L mn a) = s_ocean a"
  "assigned (load_kml L mn a) = assigned a"
  "gui_handlers (load_kml L mn a) = gui_handlers a"
  "skySlider (load_kml L mn a) = skySlider a"
  "dateTime_of (load_kml L mn a) = dateTime_of a"
  "useSky (load_kml L mn a) = useSky a"
  "useAutoClip (load_kml L mn a) = useAutoClip a"
  "kmlFile (load_kml L mn a) = kmlFile a"
  "autoClipPlaneCallback (load_kml L mn a) = autoClipPlaneCallback a"
  "SkySliderHandler \<in> set (control_handlers (load_kml L mn a))
     \<longleftrightarrow> SkySliderHandler \<in> set (control_handlers a)"
  by (simp_all add: load_kml_def KMLUIBuilder_accept_def Let_def fold_KMLUIBuilder_row_same
        split: option.splits)

lemma addMouseCoords_eq:
  "addMouseCoords (Some mn) a =
     Inr (a\<lparr>next_addr := next_addr a + 1, text_of := (text_of a)(next_addr a := []),
            gui_handlers := gui_handlers a @ [MouseCoordsHandler (next_addr a) (Some mn)]\<rparr>)"
  by (simp add: addMouseCoords_def Let_def)

lemma setup_mapNode_eq:
  "setup_mapNode L mn a =
     Inr (load_kml L mn
            ((panel_stage L mn a)
               \<lparr>next_addr := next_addr (panel_stage L mn a) + 1,
                text_of := (text_of (panel_stage L mn a))(next_addr (panel_stage L mn a) := []),
                gui_handlers := gui_handlers (panel_stage L mn a)
                   @ [MouseCoordsHandler (next_addr (panel_stage L mn a)) (Some mn)]\<rparr>))"
  unfolding setup_mapNode_def panel_stage_def Let_def addMouseCoords_eq
  by (simp split: prod.splits)

lemma flags_app_fields:
  "useAutoClip (flags_app argv) = (''--autoclip'' \<in> set (tl argv))"
  "useSky (flags_app argv) = (''--sky'' \<in> set (tl argv))"
  "s_ocean (flags_app argv) = (''--ocean'' \<in> set (tl argv))"
  "s_dms (flags_app argv) = (''--dms'' \<in> set (tl argv))"
  "s_mgrs (flags_app argv) = (''--mgrs'' \<in> set (tl argv))"
  "kmlFile (flags_app argv) = fst (arguments_read_string ''--kml'' [] (without_flags argv))"
  by (simp_all add: flags_app_def read_flags_eq)

lemma positional_eq:
  "positional argv = snd (arguments_read_string ''--kml'' [] (without_flags argv))"
  by (simp add: positional_def read_flags_eq)

lemma create_manipulator_fields:
  "fresh (create_manipulator earthNode (flags_app argv))"
  "useAutoClip (create_manipulator earthNode a) = useAutoClip a"
  "useSky (create_manipulator earthNode a) = useSky a"
  "s_ocean (create_manipulator earthNode a) = s_ocean a"
  "s_dms (create_manipulator earthNode a) = s_dms a"
  "s_mgrs (create_manipulator earthNode a) = s_mgrs a"
  "kmlFile (create_manipulator earthNode a) = kmlFile a"
  "autoClipPlaneCallback (create_manipulator earthNode (flags_app argv)) = False"
  by (simp_all add: create_manipulator_def fresh_def Let_def assign_s_manip_def flags_app_def
        read_flags_eq initial_app_def)

lemma main_setup_eq:
  "main_setup L argv =
     (case readNodeFiles L (positional argv) of
        None \<Rightarrow> UsageExit (fst (usage ''Unable to load earth model.'')) (- 1)
      | Some earthNode \<Rightarrow>
          (case findMapNode L earthNode of
             None \<Rightarrow> Ready (create_manipulator earthNode (flags_app argv))
           | Some mn \<Rightarrow>
               (case setup_mapNode L mn (create_manipulator earthNode (flags_app argv)) of
                  Inl e \<Rightarrow> SetupCrash e
                | Inr a \<Rightarrow> Ready a)))"
  by (simp add: main_setup_def positional_def flags_app_def usage_def Let_def
        split: prod.splits option.splits)

lemma panel_stage_same:
  "s_manip (panel_stage L mn a) = s_manip a"
  "s_dms (panel_stage L mn a) = s_dms a"
  "s_mgrs (panel_stage L mn a) = s_mgrs a"
  "s_ocean (panel_stage L mn a) = s_ocean a"
  "kmlFile (panel_stage L mn a) = kmlFile a"
  by (simp_all add: panel_stage_def Let_def register_viewpoints_eq setup_geocentric_same
        createControlPanel_same)

lemma panel_stage_gui_handlers:
  "gui_handlers a = [] \<Longrightarrow>
     gui_handlers (panel_stage L mn a)
       = (if loaded_viewpoints mn = [] then [] else [ViewpointHandler (loaded_viewpoints mn)])"
  by (simp add: panel_stage_def Let_def register_viewpoints_eq setup_geocentric_same
        createControlPanel_same)

lemma panel_stage_sky:
  "s_sky a = None \<Longrightarrow>
     s_sky (panel_stage L mn a)
       = (if isGeocentric mn \<and> (useSky a \<or> \<not> conf_empty (conf_child (externalConfig mn) ''sky''))
          then Some (next_addr a) else None)"
  "useSky (panel_stage L mn a)
       = (useSky a \<or> isGeocentric mn \<and> \<not> conf_empty (conf_child (externalConfig mn) ''sky''))"
  "useAutoClip (panel_stage L mn a)
       = (if isGeocentric mn \<and> conf_hasChild (externalConfig mn) ''autoclip''
          then conf_boolValue L (conf_child (externalConfig mn) ''autoclip'') (useAutoClip a)
          else useAutoClip a)"
  "isGeocentric mn \<and> (useSky a \<or> \<not> conf_empty (conf_child (externalConfig mn) ''sky'')) \<Longrightarrow>
     dateTime_of (panel_stage L mn a) (next_addr a)
       = (2011, 3, 6, conf_value_double L (conf_child (externalConfig mn) ''sky'') ''hours'' 12)"
  by (simp_all add: panel_stage_def Let_def register_viewpoints_eq setup_geocentric_same
        setup_geocentric_sky setup_geocentric_autoclip createControlPanel_same)

lemma panel_stage_callback:
  "\<not> autoClipPlaneCallback a \<Longrightarrow>
     autoClipPlaneCallback (panel_stage L mn a)
       = (isGeocentric mn \<and> (s_sky (panel_stage L mn a) \<noteq> None \<or> s_ocean a
            \<or> useAutoClip (panel_stage L mn a)))"
  by (simp add: panel_stage_def Let_def register_viewpoints_eq setup_geocentric_same
        setup_geocentric_sky setup_geocentric_autoclip createControlPanel_same)

lemma panel_stage_panel:
  assumes "fresh a"
  shows "s_controlPanel (panel_stage L mn a) \<noteq> None
           \<longleftrightarrow> loaded_viewpoints mn \<noteq> [] \<or> s_sky (panel_stage L mn a) \<noteq> None"
    and "skySlider (panel_stage L mn a)
           = (if s_sky (panel_stage L mn a) = None then None
              else Some \<lparr>sl_min = 0, sl_max = 24, sl_value = 18\<rparr>)"
    and "SkySliderHandler \<in> set (control_handlers (panel_stage L mn a))
           \<longleftrightarrow> s_sky (panel_stage L mn a) \<noteq> None"
    and "assigned (panel_stage L mn a)
           = [G_manip] @ (if s_sky (panel_stage L mn a) = None then [] else [G_sky])
               @ (if s_controlPanel (panel_stage L mn a) = None then [] else [G_controlPanel])"
  using assms
  by (auto simp: fresh_def panel_stage_def Let_def register_viewpoints_eq setup_geocentric_same
        setup_geocentric_sky createControlPanel_same createControlPanel_panel)

lemma main_setup_Ready:
  assumes "main_setup L argv = Ready a"
  obtains (no_map) earthNode where "readNodeFiles L (positional argv) = Some earthNode"
      "findMapNode L earthNode = None" "a = create_manipulator earthNode (flags_app argv)"
  | (with_map) earthNode mn where "readNodeFiles L (positional argv) = Some earthNode"
      "findMapNode L earthNode = Some mn" "a = ready_app L mn earthNode argv"
  using assms
  by (auto simp: main_setup_eq setup_mapNode_eq ready_app_def Let_def split: option.splits)

lemma ready_app_fields:
  fixes L mn earthNode argv
  defines "a \<equiv> ready_app L mn earthNode argv"
  shows "s_dms a = (''--dms'' \<in> set (tl argv))"
    and "s_mgrs a = (''--mgrs'' \<in> set (tl argv))"
    and "s_ocean a = (''--ocean'' \<in> set (tl argv))"
    and "kmlFile a = fst (arguments_read_string ''--kml'' [] (without_flags argv))"
    and "s_manip a \<noteq> None"
    and "\<exists>label. gui_handlers a
           = (if loaded_viewpoints mn = [] then [] else [ViewpointHandler (loaded_viewpoints mn)])
               @ [MouseCoordsHandler label (Some mn)]"
    and "s_controlPanel a \<noteq> None \<longleftrightarrow> loaded_viewpoints mn \<noteq> [] \<or> s_sky a \<noteq> None"
    and "skySlider a
           = (if s_sky a = None then None else Some \<lparr>sl_min = 0, sl_max = 24, sl_value = 18\<rparr>)"
    and "SkySliderHandler \<in> set (control_handlers a) \<longleftrightarrow> s_sky a \<noteq> None"
    and "assigned a = [G_manip] @ (if s_sky a = None then [] else [G_sky])
               @ (if s_controlPanel a = None then [] else [G_controlPanel])"
    and "useSky a = (''--sky'' \<in> set (tl argv)
           \<or> isGeocentric mn \<and> \<not> conf_empty (conf_child (externalConfig mn) ''sky''))"
    and "useAutoClip a
           = (if isGeocentric mn \<and> conf_hasChild (externalConfig mn) ''autoclip''
              then conf_boolValue L (conf_child (externalConfig mn) ''autoclip'')
                     (''--autoclip'' \<in> set (tl argv))
              else ''--autoclip'' \<in> set (tl argv))"
    and "s_sky a = None \<longleftrightarrow> \<not> (isGeocentric mn \<and> (''--sky'' \<in> set (tl argv)
           \<or> \<not> conf_empty (conf_child (externalConfig mn) ''sky'')))"
    and "\<And>sky. s_sky a = Some sky \<Longrightarrow> dateTime_of a sky
           = (2011, 3, 6, conf_value_double L (conf_child (externalConfig mn) ''sky'') ''hours'' 12)"
    and "autoClipPlaneCallback a
           = (isGeocentric mn \<and> (s_sky a \<noteq> None \<or> ''--ocean'' \<in> set (tl argv) \<or> useAutoClip a))"
proof -
  let ?c = "create_manipulator earthNode (flags_app argv)"
  let ?p = "panel_stage L mn ?c"
  have c: "fresh ?c" by (rule create_manipulator_fields)
  note pf = panel_stage_panel [OF c, of L mn]
  have cs: "gui_handlers ?c = []" "s_sky ?c = None" "s_manip ?c \<noteq> None"
    using c by (simp_all add: fresh_def)
  show "s_dms a = (''--dms'' \<in> set (tl argv))"
    by (simp add: a_def ready_app_def Let_def load_kml_same panel_stage_same
          create_manipulator_fields flags_app_fields)
  show "s_mgrs a = (''--mgrs'' \<in> set (tl argv))"
    by (simp add: a_def ready_app_def Let_def load_kml_same panel_stage_same
          create_manipulator_fields flags_app_fields)
  show "s_ocean a = (''--ocean'' \<in> set (tl argv))"
    by (simp add: a_def ready_app_def Let_def load_kml_same panel_stage_same
          create_manipulator_fields flags_app_fields)
  show "kmlFile a = fst (arguments_read_string ''--kml'' [] (without_flags argv))"
    by (simp add: a_def ready_app_def Let_def load_kml_same panel_stage_same
          create_manipulator_fields flags_app_fields)
  show "s_manip a \<noteq> None"
    using cs(3) by (simp add: a_def ready_app_def Let_def load_kml_same panel_stage_same)
  show "\<exists>label. gui_handlers a
           = (if loaded_viewpoints mn = [] then [] else [ViewpointHandler (loaded_viewpoints mn)])
               @ [MouseCoordsHandler label (Some mn)]"
    by (simp add: a_def ready_app_def Let_def load_kml_same panel_stage_gui_handlers [OF cs(1)])
  have sky: "s_sky a = s_sky ?p" and panel: "s_controlPanel a = s_controlPanel ?p"
    by (simp_all add: a_def ready_app_def Let_def load_kml_same)
  show "s_controlPanel a \<noteq> None \<longleftrightarrow> loaded_viewpoints mn \<noteq> [] \<or> s_sky a \<noteq> None"
    unfolding sky panel by (rule pf(1))
  show "skySlider a
           = (if s_sky a = None then None else Some \<lparr>sl_min = 0, sl_max = 24, sl_value = 18\<rparr>)"
    unfolding sky using pf(2) by (simp add: a_def ready_app_def Let_def load_kml_same)
  show "SkySliderHandler \<in> set (control_handlers a) \<longleftrightarrow> s_sky a \<noteq> None"
    unfolding sky using pf(3) by (simp add: a_def ready_app_def Let_def load_kml_same)
  show "assigned a = [G_manip] @ (if s_sky a = None then [] else [G_sky])
               @ (if s_controlPanel a = None then [] else [G_controlPanel])"
    unfolding sky panel using pf(4) by (simp add: a_def ready_app_def Let_def load_kml_same)
  show "useSky a = (''--sky'' \<in> set (tl argv)
           \<or> isGeocentric mn \<and> \<not> conf_empty (conf_child (externalConfig mn) ''sky''))"
    by (simp add: a_def ready_app_def Let_def load_kml_same panel_stage_sky
          create_manipulator_fields flags_app_fields)
  show "useAutoClip a
           = (if isGeocentric mn \<and> conf_hasChild (externalConfig mn) ''autoclip''
              then conf_boolValue L (conf_child (externalConfig mn) ''autoclip'')
                     (''--autoclip'' \<in> set (tl argv))
              else ''--autoclip'' \<in> set (tl argv))"
    by (simp add: a_def ready_app_def Let_def load_kml_same panel_stage_sky
          create_manipulator_fields flags_app_fields)
  have sky_eq: "s_sky a = (if isGeocentric mn \<and> (''--sky'' \<in> set (tl argv)
           \<or> \<not> conf_empty (conf_child (externalConfig mn) ''sky''))
          then Some (next_addr ?c) else None)"
    unfolding sky
    by (simp add: panel_stage_sky(1) [OF cs(2)] create_manipulator_fields flags_app_fields)
  show "s_sky a = None \<longleftrightarrow> \<not> (isGeocentric mn \<and> (''--sky'' \<in> set (tl argv)
           \<or> \<not> conf_empty (conf_child (externalConfig mn) ''sky'')))"
    unfolding sky_eq by simp
  show "dateTime_of a sky
           = (2011, 3, 6, conf_value_double L (conf_child (externalConfig mn) ''sky'') ''hours'' 12)"
    if "s_sky a = Some sky" for sky
  proof -
    have g: "isGeocentric mn \<and> (useSky ?c \<or> \<not> conf_empty (conf_child (externalConfig mn) ''sky''))"
      and s: "sky = next_addr ?c"
      using that unfolding sky_eq
      by (simp_all add: create_manipulator_fields flags_app_fields split: if_splits)
    have "dateTime_of a sky = dateTime_of ?p sky"
      by (simp add: a_def ready_app_def Let_def load_kml_same)
    then show ?thesis
      unfolding s using panel_stage_sky(4) [OF g] by simp
  qed
  have "\<not> autoClipPlaneCallback ?c"
    by (simp add: create_manipulator_fields)
  then show "autoClipPlaneCallback a
           = (isGeocentric mn \<and> (s_sky a \<noteq> None \<or> ''--ocean'' \<in> set (tl argv) \<or> useAutoClip a))"
    unfolding sky using panel_stage_callback [of ?c L mn]
    by (simp add: a_def ready_app_def Let_def load_kml_same create_manipulator_fields
          flags_app_fields)
qed

lemma main_setup_handlers_ok:
  assumes "main_setup L argv = Ready a"
  shows "handlers_ok a"
  using assms
proof (cases rule: main_setup_Ready)
  case (no_map earthNode)
  have "fresh a"
    unfolding no_map(3) by (rule create_manipulator_fields)
  then show ?thesis
    by (simp add: fresh_def handlers_ok_def)
next
  case (with_map earthNode mn)
  note f = ready_app_fields [of L mn earthNode argv, folded with_map(3)]
  obtain label where g: "gui_handlers a
      = (if loaded_viewpoints mn = [] then [] else [ViewpointHandler (loaded_viewpoints mn)])
          @ [MouseCoordsHandler label (Some mn)]"
    using f(6) by blast
  show ?thesis
    unfolding handlers_ok_def using f(5) f(7) f(9) by (auto simp: g split: if_splits)
qed

lemma main_setup_not_SetupCrash: "main_setup L argv \<noteq> SetupCrash e"
  by (simp add: main_setup_eq setup_mapNode_eq split: option.splits)

lemma session_state:
  assumes "main_setup L argv = Ready a0" and "run L events a0 = Inr a"
  shows "handlers_ok a" and "same_setup a0 a"
proof -
  have ok: "handlers_ok a0"
    using assms(1) by (rule main_setup_handlers_ok)
  then obtain a' where "run L events a0 = Inr a'" "same_setup a0 a'"
    using run_ok by blast
  then show "same_setup a0 a"
    using assms(2) by simp
  then show "handlers_ok a"
    using ok handlers_ok_same_setup by blast
qed

lemma found_mapNode_Ready:
  assumes "main_setup L argv = Ready a0" and "found_mapNode L argv = Some mn"
  obtains earthNode where "a0 = ready_app L mn earthNode argv"
  using assms(1)
proof (cases rule: main_setup_Ready)
  case (no_map earthNode)
  then show ?thesis using assms(2) by (simp add: found_mapNode_def)
next
  case (with_map earthNode mn')
  then show ?thesis using assms(2) that by (simp add: found_mapNode_def)
qed

lemma found_mapNode_None:
  assumes "main_setup L argv = Ready a0" and "found_mapNode L argv = None"
  shows "fresh a0"
  using assms(1)
proof (cases rule: main_setup_Ready)
  case (no_map earthNode)
  show ?thesis unfolding no_map(3) by (rule create_manipulator_fields)
next
  case (with_map earthNode mn')
  then show ?thesis using assms(2) by (simp add: found_mapNode_def)
qed

text \<open>A GUI event in a session with a map node: which handler acts on it.\<close>

lemma key_step:
  assumes "gui_handlers a = (if vps = [] then [] else [ViewpointHandler vps])
             @ [MouseCoordsHandler label (Some mn)]"
    and "getEventType ea = KEYDOWN"
  shows "step L (GuiEvent ea aa) a
           = (if vps = [] then Inr a else map_sum id snd (ViewpointHandler_handle L vps ea a))"
proof (cases "vps = []")
  case True
  then show ?thesis
    using assms by (simp add: MouseCoordsHandler_handle_def)
next
  case False
  have "\<exists>a'. ViewpointHandler_handle L vps ea a = Inr (False, a')
          \<or> ViewpointHandler_handle L vps ea a = Inl NullDereference"
    by (auto simp: ViewpointHandler_handle_def Let_def split: option.splits)
  then show ?thesis
    using assms False by (auto simp: MouseCoordsHandler_handle_def)
qed

lemma other_step:
  assumes "gui_handlers a = (if vps = [] then [] else [ViewpointHandler vps])
             @ [MouseCoordsHandler label (Some mn)]"
    and "getEventType ea \<noteq> KEYDOWN"
  shows "step L (GuiEvent ea aa) a
           = map_sum id snd (MouseCoordsHandler_handle L label (Some mn) ea aa a)"
proof -
  have v: "ViewpointHandler_handle L vps ea a = Inr (False, a)"
    using assms(2) by (simp add: ViewpointHandler_handle_def)
  have "\<exists>a'. MouseCoordsHandler_handle L label (Some mn) ea aa a = Inr (False, a')"
    by (auto simp: MouseCoordsHandler_handle_def Let_def split: list.splits)
  then show ?thesis
    using assms(1) v by (cases "vps = []") auto
qed

text \<open>A key whose offset from the key 1 is the index of a viewpoint.\<close>

lemma viewpoint_key_handle:
  assumes "getEventType ea = KEYDOWN" and "0 \<le> getKey ea - of_char CHR ''1''"
    and "getKey ea - of_char CHR ''1'' < int (length vps)" and "s_manip a = Some m"
  shows "ViewpointHandler_handle L vps ea a
           = Inr (False, a\<lparr>manips := (manips a)
                   (m := setViewpoint (vps ! nat (getKey ea - of_char CHR ''1'')) 4.5 (manips a m))\<rparr>)"
  using assms by (simp add: ViewpointHandler_handle_def Let_def)

lemma session_gui_handlers:
  assumes "main_setup L argv = Ready a0" and "run L events a0 = Inr a"
    and "found_mapNode L argv = Some mn"
  shows "\<exists>label. gui_handlers a
           = (if loaded_viewpoints mn = [] then [] else [ViewpointHandler (loaded_viewpoints mn)])
               @ [MouseCoordsHandler label (Some mn)]"
proof -
  obtain earthNode where a0: "a0 = ready_app L mn earthNode argv"
    using assms(1,3) by (rule found_mapNode_Ready)
  have "gui_handlers a = gui_handlers a0"
    using session_state(2) [OF assms(1,2)] by (simp add: same_setup_def)
  then show ?thesis
    using ready_app_fields(6) [of L mn earthNode argv] by (simp add: a0)
qed

lemma ready_app_manip: "s_manip (ready_app L mn earthNode argv) = Some 0"
  by (simp add: ready_app_def Let_def load_kml_same panel_stage_same create_manipulator_def
        assign_s_manip_def flags_app_def read_flags_eq initial_app_def)

text \<open>The keys ? and v, when the offset of the key is not the index of a viewpoint.\<close>

lemma question_mark_handle:
  assumes "getEventType ea = KEYDOWN" and "getKey ea = of_char CHR ''?''"
    and "length vps < 15" and "s_controlPanel a = Some panel"
  shows "ViewpointHandler_handle L vps ea a
           = Inr (False, a\<lparr>visible_of := (visible_of a)(panel := \<not> visible_of a panel)\<rparr>)"
  using assms by (simp add: ViewpointHandler_handle_def Let_def)

lemma v_handle:
  assumes "getEventType ea = KEYDOWN" and "getKey ea = of_char CHR ''v''"
    and "length vps < 70" and "s_manip a = Some m"
  shows "ViewpointHandler_handle L vps ea a
           = Inr (False, a\<lparr>cout := cout a @ xml_store L (getConfig (getViewpoint (manips a m)))
                                     @ [CHR 0x0A]\<rparr>)"
  using assms by (simp add: ViewpointHandler_handle_def Let_def)

text \<open>
  The handlers hold no test of their own: on a state without a control panel or
  without a sky node they dereference the null pointer.
\<close>

lemma toggle_without_panel:
  assumes "length vps < 15" and "s_controlPanel a = None"
  shows "ViewpointHandler_handle L vps (key_event CHR ''?'') a = Inl NullDereference"
  using assms by (simp add: ViewpointHandler_handle_def key_event_def Let_def)

lemma slider_without_sky:
  assumes "s_sky a = None"
  shows "SkySliderHandler_onValueChanged v a = Inl NullDereference"
  using assms by (simp add: SkySliderHandler_onValueChanged_def)

section \<open>The example scene\<close>

lemma example_positional: "positional example_argv = [''osgearth_viewer'', ''demo.earth'']"
  by (simp add: positional_eq example_argv_def without_flags_def arguments_read_string_def)

lemma example_found: "found_mapNode (example_lib n) example_argv = Some (example_mapNode n)"
  by (simp add: found_mapNode_def example_positional example_lib_def)

lemma example_setup: "main_setup (example_lib n) example_argv = Ready (example_app n)"
  by (simp add: main_setup_eq setup_mapNode_eq example_positional example_app_def ready_app_def
        Let_def example_lib_def)

lemma example_viewpoints:
  "loaded_viewpoints (example_mapNode n) = replicate n (Viewpoint example_viewpoint)"
  by (simp add: loaded_viewpoints_def example_mapNode_def conf_children_of_def
        example_viewpoint_def)

lemma example_sky:
  "\<not> conf_empty (conf_child (externalConfig (example_mapNode n)) ''sky'')"
  "conf_value_double (example_lib n) (conf_child (externalConfig (example_mapNode n)) ''sky'')
     ''hours'' 12 = 9"
  by (simp_all add: example_mapNode_def conf_child_def conf_children_of_def conf_empty_def
        example_viewpoint_def conf_value_double_def conf_value_def conf_hasChild_def
        example_lib_def)

lemma example_autoclip:
  "conf_hasChild (externalConfig (example_mapNode n)) ''autoclip''"
  "conf_boolValue (example_lib n) (conf_child (externalConfig (example_mapNode n)) ''autoclip'') b
     = False"
  by (simp_all add: example_mapNode_def conf_child_def conf_children_of_def conf_hasChild_def
        example_viewpoint_def conf_boolValue_def example_lib_def)

lemma example_viewer_run: "viewer_run (example_lib n) = 0"
  by (simp add: example_lib_def)

lemma autoclip_positional: "positional autoclip_argv = [''osgearth_viewer'', ''demo.earth'']"
  by (simp add: positional_eq autoclip_argv_def without_flags_def arguments_read_string_def)

lemma autoclip_setup: "main_setup autoclip_lib autoclip_argv = Ready autoclip_app"
  by (simp add: main_setup_eq setup_mapNode_eq autoclip_positional autoclip_app_def ready_app_def
        Let_def autoclip_lib_def example_lib_def)

lemma autoclip_found: "found_mapNode autoclip_lib autoclip_argv = Some autoclip_mapNode"
  by (simp add: found_mapNode_def autoclip_positional autoclip_lib_def example_lib_def)

lemma autoclip_conf:
  "conf_hasChild (externalConfig autoclip_mapNode) ''autoclip''"
  "conf_boolValue autoclip_lib (conf_child (externalConfig autoclip_mapNode) ''autoclip'') b = False"
  "conf_empty (conf_child (externalConfig autoclip_mapNode) ''sky'')"
  "isGeocentric autoclip_mapNode"
  by (simp_all add: autoclip_mapNode_def conf_child_def conf_children_of_def conf_hasChild_def
        conf_boolValue_def conf_empty_def autoclip_lib_def example_lib_def)

lemma nomap_setup: "main_setup nomap_lib example_argv = Ready nomap_app"
  by (simp add: main_setup_eq example_positional nomap_app_def nomap_lib_def example_lib_def)

lemma nomap_pointers: "s_controlPanel nomap_app = None" "s_sky nomap_app = None"
  using create_manipulator_fields(1) [of example_earth example_argv]
  by (simp_all add: nomap_app_def fresh_def)

section \<open>The claims\<close>

text \<open>
  C1. main has exactly one failure path. If the scene file fails to load (readNodeFiles
  returns null), main sends the usage message with the options to the notice stream,
  writes nothing else and returns the negative status of usage. If the scene file
  loads, main sends no usage message: it sets the viewer up, the session runs without
  a crash, and main returns the status of the viewer's run loop. So the usage message
  is printed if and only if the scene file fails to load.
\<close>

theorem main_single_failure_path:
  "(readNodeFiles L (positional argv) = None \<longrightarrow>
      main L argv events
        = Exit (fst (usage ''Unable to load earth model.'')) []
            (snd (usage ''Unable to load earth model.''))
      \<and> snd (usage ''Unable to load earth model.'') < 0
      \<and> fst (usage ''Unable to load earth model.'')
          = [''Unable to load earth model.'', [],
             ''USAGE: osgearth_viewer [options] file.earth'',
             ''   --sky           : activates the atmospheric model'',
             ''   --autoclip      : activates the auto clip-plane handler'',
             ''   --dms           : format coordinates as degrees/minutes/seconds'',
             ''   --mgrs          : format coordinates as MGRS'',
             ''   --ocean         : display an ocean surface layer, if found''])
   \<and> (readNodeFiles L (positional argv) \<noteq> None \<longrightarrow>
        (\<exists>a0 a. main_setup L argv = Ready a0 \<and> run L events a0 = Inr a
           \<and> main L argv events = Exit [] (cout a) (viewer_run L)))"
proof (cases "readNodeFiles L (positional argv)")
  case None
  then have "main_setup L argv
      = UsageExit (fst (usage ''Unable to load earth model.'')) (- 1)"
    by (simp add: main_setup_eq)
  then show ?thesis
    using None by (simp add: main_def usage_def)
next
  case (Some earthNode)
  then have "\<exists>a0. main_setup L argv = Ready a0"
    by (simp add: main_setup_eq setup_mapNode_eq split: option.splits)
  then obtain a0 where a0: "main_setup L argv = Ready a0" ..
  then have "handlers_ok a0"
    by (rule main_setup_handlers_ok)
  then obtain a where a: "run L events a0 = Inr a"
    using run_ok by blast
  then have "main L argv events = Exit [] (cout a) (viewer_run L)"
    using a0 by (simp add: main_def)
  then show ?thesis
    using Some a0 a by simp
qed

theorem main_single_failure_path_witness:
  "readNodeFiles (example_lib 2) (positional [''osgearth_viewer'', ''missing.earth'']) = None
   \<and> main (example_lib 2) [''osgearth_viewer'', ''missing.earth''] []
       = Exit (fst (usage ''Unable to load earth model.'')) [] (- 1)
   \<and> readNodeFiles (example_lib 2) (positional example_argv) \<noteq> None
   \<and> main (example_lib 2) example_argv [] = Exit [] (cout (example_app 2)) 0"
proof -
  have n: "readNodeFiles (example_lib 2) (positional [''osgearth_viewer'', ''missing.earth'']) = None"
    by (simp add: positional_eq without_flags_def arguments_read_string_def example_lib_def)
  have s: "readNodeFiles (example_lib 2) (positional example_argv) \<noteq> None"
    by (simp add: example_positional example_lib_def)
  have "main (example_lib 2) [''osgearth_viewer'', ''missing.earth''] []
       = Exit (fst (usage ''Unable to load earth model.'')) [] (- 1)"
    using main_single_failure_path [of "example_lib 2" "[''osgearth_viewer'', ''missing.earth'']" "[]"] n
    by (simp add: usage_def)
  moreover have "main (example_lib 2) example_argv [] = Exit [] (cout (example_app 2)) 0"
    using main_single_failure_path [of "example_lib 2" example_argv "[]"] s
    by (auto simp: example_setup example_viewer_run)
  ultimately show ?thesis
    using n s by simp
qed

text \<open>
  C2. In a session on a scene with a map node, a KEYDOWN event whose key \<open>k\<close> satisfies
  \<open>0 \<le> k - '1' < n\<close>, for \<open>n\<close> the number of loaded viewpoints, makes the
  manipulator start a transition to the viewpoint at index \<open>k - '1'\<close> with duration
  4.5, and changes nothing else. A digit key outside that range, the digit 0 among
  them, leaves the whole state as it is.
\<close>

theorem viewpoint_keys:
  assumes "main_setup L argv = Ready a0" and "run L events a0 = Inr a"
    and "found_mapNode L argv = Some mn" and "getEventType ea = KEYDOWN"
  shows "(0 \<le> getKey ea - of_char CHR ''1''
            \<and> getKey ea - of_char CHR ''1'' < int (length (loaded_viewpoints mn)) \<longrightarrow>
          (\<exists>m. s_manip a = Some m
             \<and> step L (GuiEvent ea aa) a
                 = Inr (a\<lparr>manips := (manips a)
                         (m := setViewpoint
                                 (loaded_viewpoints mn ! nat (getKey ea - of_char CHR ''1''))
                                 4.5 (manips a m))\<rparr>)))
       \<and> (of_char CHR ''0'' \<le> getKey ea \<and> getKey ea \<le> of_char CHR ''9''
            \<and> \<not> (0 \<le> getKey ea - of_char CHR ''1''
                   \<and> getKey ea - of_char CHR ''1'' < int (length (loaded_viewpoints mn))) \<longrightarrow>
          step L (GuiEvent ea aa) a = Inr a)"
proof -
  let ?vps = "loaded_viewpoints mn"
  obtain label where g: "gui_handlers a
      = (if ?vps = [] then [] else [ViewpointHandler ?vps]) @ [MouseCoordsHandler label (Some mn)]"
    using session_gui_handlers [OF assms(1,2,3)] by blast
  have st: "step L (GuiEvent ea aa) a
      = (if ?vps = [] then Inr a else map_sum id snd (ViewpointHandler_handle L ?vps ea a))"
    using g assms(4) by (rule key_step)
  obtain m where m: "s_manip a = Some m"
    using session_state(1) [OF assms(1,2)] by (auto simp: handlers_ok_def)
  have in_range: "step L (GuiEvent ea aa) a
      = Inr (a\<lparr>manips := (manips a)
               (m := setViewpoint (?vps ! nat (getKey ea - of_char CHR ''1'')) 4.5 (manips a m))\<rparr>)"
    if "0 \<le> getKey ea - of_char CHR ''1''" "getKey ea - of_char CHR ''1'' < int (length ?vps)"
  proof -
    have "?vps \<noteq> []" using that by auto
    then show ?thesis
      unfolding st using viewpoint_key_handle [OF assms(4) that m, of L] by simp
  qed
  have digit: "step L (GuiEvent ea aa) a = Inr a"
    if "of_char CHR ''0'' \<le> getKey ea" "getKey ea \<le> of_char CHR ''9''"
      "\<not> (0 \<le> getKey ea - of_char CHR ''1'' \<and> getKey ea - of_char CHR ''1'' < int (length ?vps))"
  proof -
    have "getKey ea \<noteq> of_char CHR ''v''" "getKey ea \<noteq> of_char CHR ''?''"
      using that(1,2) by simp_all
    then have "ViewpointHandler_handle L ?vps ea a = Inr (False, a)"
      using that(3) assms(4) by (auto simp: ViewpointHandler_handle_def Let_def)
    then show ?thesis
      unfolding st by simp
  qed
  show ?thesis
    using in_range digit m by blast
qed

theorem viewpoint_keys_witness:
  "main_setup (example_lib 2) example_argv = Ready (example_app 2)
   \<and> run (example_lib 2) [] (example_app 2) = Inr (example_app 2)
   \<and> found_mapNode (example_lib 2) example_argv = Some (example_mapNode 2)
   \<and> getEventType (key_event CHR ''2'') = KEYDOWN
   \<and> (\<exists>m. s_manip (example_app 2) = Some m
        \<and> step (example_lib 2) (GuiEvent (key_event CHR ''2'') example_view) (example_app 2)
            = Inr ((example_app 2)\<lparr>manips := (manips (example_app 2))
                     (m := setViewpoint (Viewpoint example_viewpoint) 4.5
                             (manips (example_app 2) m))\<rparr>))
   \<and> step (example_lib 2) (GuiEvent (key_event CHR ''0'') example_view) (example_app 2)
       = Inr (example_app 2)"
proof -
  have r: "run (example_lib 2) [] (example_app 2) = Inr (example_app 2)"
    by simp
  have k: "getEventType (key_event c) = KEYDOWN" "getKey (key_event c) = of_char c" for c
    by (simp_all add: key_event_def)
  note w2 = viewpoint_keys [OF example_setup r example_found k(1), of "CHR ''2''" example_view]
  note w0 = viewpoint_keys [OF example_setup r example_found k(1), of "CHR ''0''" example_view]
  have "\<exists>m. s_manip (example_app 2) = Some m
        \<and> step (example_lib 2) (GuiEvent (key_event CHR ''2'') example_view) (example_app 2)
            = Inr ((example_app 2)\<lparr>manips := (manips (example_app 2))
                     (m := setViewpoint (Viewpoint example_viewpoint) 4.5
                             (manips (example_app 2) m))\<rparr>)"
    using w2 by (simp add: k(2) example_viewpoints)
  moreover have "step (example_lib 2) (GuiEvent (key_event CHR ''0'') example_view) (example_app 2)
       = Inr (example_app 2)"
    using w0 by (simp add: k(2) example_viewpoints)
  ultimately show ?thesis
    using example_setup r example_found k(1) by blast
qed

text \<open>
  C3, as the claim states it, fails: the uses in the handlers are not preceded by a
  null check. For a scene without a map node main hands the viewer a state in which
  the control panel and the sky node are null; on that state the ? branch of
  ViewpointHandler::handle and SkySliderHandler::onValueChanged do not skip their
  action, they dereference the null pointer.
\<close>

theorem handlers_make_no_null_check:
  "main_setup nomap_lib example_argv = Ready nomap_app
   \<and> s_controlPanel nomap_app = None
   \<and> ViewpointHandler_handle nomap_lib [] (key_event CHR ''?'') nomap_app = Inl NullDereference
   \<and> s_sky nomap_app = None
   \<and> SkySliderHandler_onValueChanged 7 nomap_app = Inl NullDereference"
proof -
  have "ViewpointHandler_handle nomap_lib [] (key_event CHR ''?'') nomap_app = Inl NullDereference"
    using nomap_pointers(1) by (intro toggle_without_panel) simp_all
  moreover have "SkySliderHandler_onValueChanged 7 nomap_app = Inl NullDereference"
    using nomap_pointers(2) by (rule slider_without_sky)
  ultimately show ?thesis
    using nomap_setup nomap_pointers by simp
qed

text \<open>
  C3, amended. The handlers make no null check of their own, and the control panel is
  never tested against null; the tests stand in main (the map node) and in
  createControlPanel (the sky node), before the handlers are created, and a
  ViewpointHandler is registered only when viewpoints are loaded, in which case the
  control panel is created too. So no handler that is registered dereferences a null
  map node, sky node or control panel: set-up never fails on a null pointer, and from
  the state main hands to the viewer every sequence of events runs without a null
  dereference. In every state of the session a registered ViewpointHandler, which
  toggles the control panel on the key ?, comes with a control panel; a registered
  SkySliderHandler, which sets the date and time of the sky node, comes with a sky
  node; and every registered MouseCoordsHandler holds a map node.
\<close>

theorem no_null_dereference:
  "main_setup L argv \<noteq> SetupCrash e
   \<and> main L argv events \<noteq> Crash e
   \<and> (main_setup L argv = Ready a0 \<longrightarrow>
        (\<exists>a. run L events a0 = Inr a
           \<and> (\<forall>vps. ViewpointHandler vps \<in> set (gui_handlers a) \<longrightarrow> s_controlPanel a \<noteq> None)
           \<and> (SkySliderHandler \<in> set (control_handlers a) \<longrightarrow> s_sky a \<noteq> None)
           \<and> (\<forall>label. MouseCoordsHandler label None \<notin> set (gui_handlers a))))"
proof -
  have 1: "main_setup L argv \<noteq> SetupCrash e"
    by (rule main_setup_not_SetupCrash)
  have 3: "\<exists>a. run L events a0 = Inr a \<and> handlers_ok a" if "main_setup L argv = Ready a0" for a0
  proof -
    have "handlers_ok a0"
      using that by (rule main_setup_handlers_ok)
    then obtain a where "run L events a0 = Inr a" "same_setup a0 a"
      using run_ok by blast
    then show ?thesis
      using \<open>handlers_ok a0\<close> handlers_ok_same_setup by blast
  qed
  have 2: "main L argv events \<noteq> Crash e"
  proof (cases "main_setup L argv")
    case (UsageExit lines status)
    then show ?thesis by (simp add: main_def)
  next
    case (SetupCrash e')
    then show ?thesis using main_setup_not_SetupCrash by blast
  next
    case (Ready a0)
    then obtain a where "run L events a0 = Inr a"
      using 3 by blast
    then show ?thesis
      using Ready by (simp add: main_def)
  qed
  show ?thesis
    using 1 2 3 [of a0] unfolding handlers_ok_def by blast
qed

theorem no_null_dereference_witness:
  "main_setup (example_lib 2) example_argv = Ready (example_app 2)
   \<and> main (example_lib 2) example_argv
        [GuiEvent (key_event CHR ''?'') example_view, ControlEvent 2 (ValueChanged_float 7)]
       \<noteq> Crash NullDereference
   \<and> (\<exists>a. run (example_lib 2)
              [GuiEvent (key_event CHR ''?'') example_view, ControlEvent 2 (ValueChanged_float 7)]
              (example_app 2) = Inr a
          \<and> s_controlPanel a \<noteq> None \<and> s_sky a \<noteq> None)"
proof -
  let ?es = "[GuiEvent (key_event CHR ''?'') example_view, ControlEvent 2 (ValueChanged_float 7)]"
  note w = no_null_dereference [of "example_lib 2" example_argv NullDereference ?es "example_app 2"]
  obtain a where a: "run (example_lib 2) ?es (example_app 2) = Inr a"
    "\<forall>vps. ViewpointHandler vps \<in> set (gui_handlers a) \<longrightarrow> s_controlPanel a \<noteq> None"
    "SkySliderHandler \<in> set (control_handlers a) \<longrightarrow> s_sky a \<noteq> None"
    using w example_setup by blast
  have same: "gui_handlers a = gui_handlers (example_app 2)"
    "control_handlers a = control_handlers (example_app 2)" "s_sky a = s_sky (example_app 2)"
    using session_state(2) [OF example_setup a(1)] by (simp_all add: same_setup_def)
  note f = ready_app_fields [of "example_lib 2" "example_mapNode 2" example_earth example_argv,
      folded example_app_def]
  have sky: "s_sky a \<noteq> None"
    using f(13) example_sky(1) [of 2] same(3) by (simp add: example_mapNode_def)
  obtain label where "gui_handlers a
      = [ViewpointHandler (loaded_viewpoints (example_mapNode 2)), MouseCoordsHandler label (Some (example_mapNode 2))]"
    using f(6) same(1) by (auto simp: example_viewpoints)
  then have "s_controlPanel a \<noteq> None"
    using a(2) by simp
  then show ?thesis
    using w example_setup a(1) sky by blast
qed

text \<open>
  C6. In a session on a scene with a map node, the mouse-coordinates label belongs to
  the registered MouseCoordsHandler. On a MOVE or DRAG event whose pick ray hits the
  terrain, the label text becomes the formatted map coordinates of the first hit:
  the prefix \<open>MGRS: \<close> with the MGRS rendering exactly when --mgrs was given, then
  latitude and longitude in degrees, minutes and seconds exactly when --dms was given
  and in decimal degrees otherwise. With no hit the text becomes empty. An event of
  any other type leaves every label text as it is.
\<close>

theorem mouse_coords_label:
  assumes "main_setup L argv = Ready a0" and "run L events a0 = Inr a"
    and "found_mapNode L argv = Some mn"
  shows "\<exists>label. MouseCoordsHandler label (Some mn) \<in> set (gui_handlers a)
     \<and> (getEventType ea = MOVE \<or> getEventType ea = DRAG \<longrightarrow>
          (\<forall>first rest. computeIntersections aa (getX ea) (getY ea) = first # rest \<longrightarrow>
             step L (GuiEvent ea aa) a
               = Inr (a\<lparr>text_of := (text_of a)(label :=
                   (if ''--mgrs'' \<in> set (tl argv)
                    then ''MGRS: ''
                           @ mgrs_format L (vy (worldPointToMapPoint mn first))
                               (vx (worldPointToMapPoint mn first))
                           @ ''   ''
                    else [])
                   @ ''Lat: ''
                   @ latlong_format L
                       (if ''--dms'' \<in> set (tl argv) then FORMAT_DEGREES_MINUTES_SECONDS
                        else FORMAT_DECIMAL_DEGREES)
                       (vy (worldPointToMapPoint mn first)) 4
                   @ ''  '' @ ''Lon: ''
                   @ latlong_format L
                       (if ''--dms'' \<in> set (tl argv) then FORMAT_DEGREES_MINUTES_SECONDS
                        else FORMAT_DECIMAL_DEGREES)
                       (vx (worldPointToMapPoint mn first)) 5)\<rparr>))
          \<and> (computeIntersections aa (getX ea) (getY ea) = [] \<longrightarrow>
               step L (GuiEvent ea aa) a = Inr (a\<lparr>text_of := (text_of a)(label := [])\<rparr>)))
     \<and> (getEventType ea \<noteq> MOVE \<and> getEventType ea \<noteq> DRAG \<longrightarrow>
          (\<exists>a'. step L (GuiEvent ea aa) a = Inr a' \<and> text_of a' = text_of a))"
proof -
  let ?vps = "loaded_viewpoints mn"
  obtain label where g: "gui_handlers a
      = (if ?vps = [] then [] else [ViewpointHandler ?vps]) @ [MouseCoordsHandler label (Some mn)]"
    using session_gui_handlers [OF assms] by blast
  obtain earthNode where a0: "a0 = ready_app L mn earthNode argv"
    using assms(1,3) by (rule found_mapNode_Ready)
  have flags: "s_mgrs a = (''--mgrs'' \<in> set (tl argv))" "s_dms a = (''--dms'' \<in> set (tl argv))"
    using session_state(2) [OF assms(1,2)] ready_app_fields(1,2) [of L mn earthNode argv]
    by (simp_all add: same_setup_def a0)
  have reg: "MouseCoordsHandler label (Some mn) \<in> set (gui_handlers a)"
    by (simp add: g)
  have mouse: "step L (GuiEvent ea aa) a
      = map_sum id snd (MouseCoordsHandler_handle L label (Some mn) ea aa a)"
    if "getEventType ea = MOVE \<or> getEventType ea = DRAG"
    using g other_step [of a ?vps label mn ea L aa] that by auto
  have hit: "step L (GuiEvent ea aa) a
               = Inr (a\<lparr>text_of := (text_of a)(label :=
                   (if ''--mgrs'' \<in> set (tl argv)
                    then ''MGRS: ''
                           @ mgrs_format L (vy (worldPointToMapPoint mn first))
                               (vx (worldPointToMapPoint mn first))
                           @ ''   ''
                    else [])
                   @ ''Lat: ''
                   @ latlong_format L
                       (if ''--dms'' \<in> set (tl argv) then FORMAT_DEGREES_MINUTES_SECONDS
                        else FORMAT_DECIMAL_DEGREES)
                       (vy (worldPointToMapPoint mn first)) 4
                   @ ''  '' @ ''Lon: ''
                   @ latlong_format L
                       (if ''--dms'' \<in> set (tl argv) then FORMAT_DEGREES_MINUTES_SECONDS
                        else FORMAT_DECIMAL_DEGREES)
                       (vx (worldPointToMapPoint mn first)) 5)\<rparr>)"
    if "getEventType ea = MOVE \<or> getEventType ea = DRAG"
      "computeIntersections aa (getX ea) (getY ea) = first # rest" for first rest
    unfolding mouse [OF that(1)] using that
    by (simp add: MouseCoordsHandler_handle_def Let_def flags)
  have miss: "step L (GuiEvent ea aa) a = Inr (a\<lparr>text_of := (text_of a)(label := [])\<rparr>)"
    if "getEventType ea = MOVE \<or> getEventType ea = DRAG"
      "computeIntersections aa (getX ea) (getY ea) = []"
    unfolding mouse [OF that(1)] using that
    by (simp add: MouseCoordsHandler_handle_def)
  have other: "\<exists>a'. step L (GuiEvent ea aa) a = Inr a' \<and> text_of a' = text_of a"
    if "getEventType ea \<noteq> MOVE" "getEventType ea \<noteq> DRAG"
  proof (cases "getEventType ea = KEYDOWN")
    case True
    obtain m where m: "s_manip a = Some m"
      using session_state(1) [OF assms(1,2)] by (auto simp: handlers_ok_def)
    have p: "?vps \<noteq> [] \<Longrightarrow> \<exists>p. s_controlPanel a = Some p"
      using session_state(1) [OF assms(1,2)] g by (auto simp: handlers_ok_def)
    have "\<exists>a'. ViewpointHandler_handle L ?vps ea a = Inr (False, a') \<and> text_of a' = text_of a"
      if "?vps \<noteq> []"
      using m p [OF that] by (auto simp: ViewpointHandler_handle_def Let_def)
    then show ?thesis
      using key_step [OF g True, of L aa] by (cases "?vps = []") auto
  next
    case False
    then show ?thesis
      using other_step [OF g False, of L aa] that by (simp add: MouseCoordsHandler_handle_def)
  qed
  show ?thesis
    using reg hit miss other by blast
qed

theorem mouse_coords_label_witness:
  "main_setup (example_lib 2) example_argv = Ready (example_app 2)
   \<and> run (example_lib 2) [] (example_app 2) = Inr (example_app 2)
   \<and> found_mapNode (example_lib 2) example_argv = Some (example_mapNode 2)
   \<and> computeIntersections example_view 0 0 = [(1, 2, 3)]
   \<and> (\<exists>label. step (example_lib 2)
          (GuiEvent \<lparr>getEventType = MOVE, getKey = 0, getX = 0, getY = 0\<rparr> example_view)
          (example_app 2)
        = Inr ((example_app 2)\<lparr>text_of := (text_of (example_app 2))
                 (label := ''MGRS: 18SUJ2337106519   Lat: deg  Lon: deg'')\<rparr>))"
proof -
  let ?ea = "\<lparr>getEventType = MOVE, getKey = 0, getX = 0, getY = 0\<rparr>"
  have r: "run (example_lib 2) [] (example_app 2) = Inr (example_app 2)"
    by simp
  have c: "computeIntersections example_view 0 0 = [(1, 2, 3)]"
    by (simp add: example_view_def)
  obtain label where
    "\<forall>first rest. computeIntersections example_view (getX ?ea) (getY ?ea) = first # rest \<longrightarrow>
       step (example_lib 2) (GuiEvent ?ea example_view) (example_app 2)
         = Inr ((example_app 2)\<lparr>text_of := (text_of (example_app 2))(label :=
             (if ''--mgrs'' \<in> set (tl example_argv)
              then ''MGRS: ''
                     @ mgrs_format (example_lib 2)
                         (vy (worldPointToMapPoint (example_mapNode 2) first))
                         (vx (worldPointToMapPoint (example_mapNode 2) first))
                     @ ''   ''
              else [])
             @ ''Lat: ''
             @ latlong_format (example_lib 2)
                 (if ''--dms'' \<in> set (tl example_argv) then FORMAT_DEGREES_MINUTES_SECONDS
                  else FORMAT_DECIMAL_DEGREES)
                 (vy (worldPointToMapPoint (example_mapNode 2) first)) 4
             @ ''  '' @ ''Lon: ''
             @ latlong_format (example_lib 2)
                 (if ''--dms'' \<in> set (tl example_argv) then FORMAT_DEGREES_MINUTES_SECONDS
                  else FORMAT_DECIMAL_DEGREES)
                 (vx (worldPointToMapPoint (example_mapNode 2) first)) 5)\<rparr>)"
    using mouse_coords_label [OF example_setup r example_found, of ?ea example_view] by auto
  then have "step (example_lib 2) (GuiEvent ?ea example_view) (example_app 2)
        = Inr ((example_app 2)\<lparr>text_of := (text_of (example_app 2))
                 (label := ''MGRS: 18SUJ2337106519   Lat: deg  Lon: deg'')\<rparr>)"
    using c by (simp add: example_argv_def example_lib_def)
  then show ?thesis
    using example_setup r example_found c by blast
qed

text \<open>
  C8. The three pointer variables (manipulator, control panel, sky node) are each
  assigned at most once, and only by main before the viewer runs: the record of
  assignments at the end of set-up has no variable twice, and no event adds to it.
  The handlers only read the variables: in every state of the session each of the
  three holds the value it had when set-up completed.
\<close>

theorem pointers_set_once:
  assumes "main_setup L argv = Ready a0" and "run L events a0 = Inr a"
  shows "distinct (assigned a0) \<and> assigned a = assigned a0
     \<and> s_manip a = s_manip a0 \<and> s_controlPanel a = s_controlPanel a0 \<and> s_sky a = s_sky a0"
proof -
  have "distinct (assigned a0)"
    using assms(1)
  proof (cases rule: main_setup_Ready)
    case (no_map earthNode)
    have "fresh a0"
      unfolding no_map(3) by (rule create_manipulator_fields)
    then show ?thesis by (simp add: fresh_def)
  next
    case (with_map earthNode mn)
    show ?thesis
      using ready_app_fields(10) [of L mn earthNode argv] by (simp add: with_map(3))
  qed
  then show ?thesis
    using session_state(2) [OF assms] by (simp add: same_setup_def)
qed

theorem pointers_set_once_witness:
  "main_setup (example_lib 2) example_argv = Ready (example_app 2)
   \<and> run (example_lib 2) [GuiEvent (key_event CHR ''?'') example_view] (example_app 2)
       = Inr (projr (run (example_lib 2) [GuiEvent (key_event CHR ''?'') example_view] (example_app 2)))
   \<and> distinct (assigned (example_app 2))
   \<and> s_controlPanel (projr (run (example_lib 2) [GuiEvent (key_event CHR ''?'') example_view] (example_app 2)))
       = s_controlPanel (example_app 2)"
proof -
  let ?es = "[GuiEvent (key_event CHR ''?'') example_view]"
  have "handlers_ok (example_app 2)"
    using example_setup by (rule main_setup_handlers_ok)
  then obtain a where a: "run (example_lib 2) ?es (example_app 2) = Inr a"
    using run_ok by blast
  then have r: "run (example_lib 2) ?es (example_app 2)
      = Inr (projr (run (example_lib 2) ?es (example_app 2)))"
    by simp
  show ?thesis
    using pointers_set_once [OF example_setup r] example_setup r by simp
qed

text \<open>
  C7, as the claim states it, fails: with --autoclip on the command line and a
  geocentric map whose external configuration has an autoclip element with the value
  false, main ends set-up with useAutoClip false and installs no auto clip-plane
  callback.
\<close>

theorem autoclip_flag_overridden:
  "main_setup autoclip_lib autoclip_argv = Ready autoclip_app
   \<and> ''--autoclip'' \<in> set (tl autoclip_argv)
   \<and> \<not> useAutoClip autoclip_app
   \<and> \<not> autoClipPlaneCallback autoclip_app"
proof -
  note f = ready_app_fields [of autoclip_lib autoclip_mapNode example_earth autoclip_argv,
      folded autoclip_app_def]
  have u: "\<not> useAutoClip autoclip_app"
    using f(12) by (simp add: autoclip_conf)
  have "s_sky autoclip_app = None"
    using f(13) by (simp add: autoclip_conf autoclip_argv_def)
  then have "\<not> autoClipPlaneCallback autoclip_app"
    using f(15) u by (simp add: autoclip_argv_def)
  then show ?thesis
    using u autoclip_setup by (simp add: autoclip_argv_def)
qed

text \<open>
  C7, amended. main reads the first occurrence of each of the flags --autoclip, --sky,
  --ocean, --dms and --mgrs and then --kml with its file, and leaves the other
  arguments, the scene file path among them, for the loader. --ocean, --dms, --mgrs
  and --kml set s_ocean, s_dms, s_mgrs and the KML path for the rest of the run.
  --sky and --autoclip give useSky and useAutoClip their first values; for a
  geocentric map the external configuration overrides them: a non-empty sky element
  sets useSky, and an autoclip element replaces useAutoClip by its boolean value, with
  the flag as the fallback. From then on the two keep their values for the rest of
  the run.
\<close>

theorem flags_set_modes:
  assumes "main_setup L argv = Ready a0" and "run L events a0 = Inr a"
  shows "(kmlFile a, positional argv) = arguments_read_string ''--kml'' [] (without_flags argv)
     \<and> s_ocean a = (''--ocean'' \<in> set (tl argv))
     \<and> s_dms a = (''--dms'' \<in> set (tl argv))
     \<and> s_mgrs a = (''--mgrs'' \<in> set (tl argv))
     \<and> useSky a
         = (''--sky'' \<in> set (tl argv)
            \<or> (case found_mapNode L argv of
                  None \<Rightarrow> False
                | Some mn \<Rightarrow> isGeocentric mn
                     \<and> \<not> conf_empty (conf_child (externalConfig mn) ''sky'')))
     \<and> useAutoClip a
         = (case found_mapNode L argv of
              None \<Rightarrow> ''--autoclip'' \<in> set (tl argv)
            | Some mn \<Rightarrow>
                if isGeocentric mn \<and> conf_hasChild (externalConfig mn) ''autoclip''
                then conf_boolValue L (conf_child (externalConfig mn) ''autoclip'')
                       (''--autoclip'' \<in> set (tl argv))
                else ''--autoclip'' \<in> set (tl argv))"
proof -
  have same: "kmlFile a = kmlFile a0" "s_ocean a = s_ocean a0" "s_dms a = s_dms a0"
    "s_mgrs a = s_mgrs a0" "useSky a = useSky a0" "useAutoClip a = useAutoClip a0"
    using session_state(2) [OF assms] by (simp_all add: same_setup_def)
  show ?thesis
    using assms(1)
  proof (cases rule: main_setup_Ready)
    case (no_map earthNode)
    have "found_mapNode L argv = None"
      using no_map(1,2) by (simp add: found_mapNode_def)
    then show ?thesis
      unfolding same no_map(3)
      by (simp add: create_manipulator_fields flags_app_fields positional_eq)
  next
    case (with_map earthNode mn)
    have "found_mapNode L argv = Some mn"
      using with_map(1,2) by (simp add: found_mapNode_def)
    then show ?thesis
      unfolding same with_map(3)
      using ready_app_fields(1,2,3,4,11,12) [of L mn earthNode argv]
      by (simp add: positional_eq)
  qed
qed

theorem flags_set_modes_witness:
  "main_setup autoclip_lib autoclip_argv = Ready autoclip_app
   \<and> run autoclip_lib [] autoclip_app = Inr autoclip_app
   \<and> kmlFile autoclip_app = []
   \<and> positional autoclip_argv = [''osgearth_viewer'', ''demo.earth'']
   \<and> \<not> s_ocean autoclip_app \<and> \<not> s_dms autoclip_app \<and> \<not> s_mgrs autoclip_app
   \<and> \<not> useSky autoclip_app \<and> \<not> useAutoClip autoclip_app"
proof -
  have r: "run autoclip_lib [] autoclip_app = Inr autoclip_app"
    by simp
  have k: "arguments_read_string ''--kml'' [] (without_flags autoclip_argv)
      = ([], [''osgearth_viewer'', ''demo.earth''])"
    by (simp add: autoclip_argv_def without_flags_def arguments_read_string_def)
  show ?thesis
    using flags_set_modes [OF autoclip_setup r] autoclip_setup r
    by (simp add: k autoclip_found autoclip_conf) (simp add: autoclip_argv_def)
qed

text \<open>
  C9. For a geocentric map whose external configuration has a non-empty sky element,
  the sky model is activated whether or not --sky was given: useSky is set, the sky
  node exists for the whole session, and main sets its date and time to 6 March 2011
  at the hour the configuration gives under hours, which is 12.0 when the sky element
  has no hours. For a map that is not geocentric there is no sky node at any time,
  whatever the flags.
\<close>

theorem sky_from_configuration:
  assumes "main_setup L argv = Ready a0" and "run L events a0 = Inr a"
    and "found_mapNode L argv = Some mn"
  shows "(isGeocentric mn \<and> \<not> conf_empty (conf_child (externalConfig mn) ''sky'') \<longrightarrow>
            useSky a0
            \<and> (\<exists>sky. s_sky a0 = Some sky \<and> s_sky a = Some sky
                 \<and> dateTime_of a0 sky
                     = (2011, 3, 6,
                        conf_value_double L (conf_child (externalConfig mn) ''sky'') ''hours'' 12.0)))
     \<and> (\<not> conf_hasChild (conf_child (externalConfig mn) ''sky'') ''hours'' \<longrightarrow>
            conf_value_double L (conf_child (externalConfig mn) ''sky'') ''hours'' 12.0 = 12.0)
     \<and> (\<not> isGeocentric mn \<longrightarrow> s_sky a0 = None \<and> s_sky a = None)"
proof -
  obtain earthNode where a0: "a0 = ready_app L mn earthNode argv"
    using assms(1,3) by (rule found_mapNode_Ready)
  note f = ready_app_fields [of L mn earthNode argv, folded a0]
  have same: "s_sky a = s_sky a0"
    using session_state(2) [OF assms(1,2)] by (simp add: same_setup_def)
  have 1: "useSky a0 \<and> (\<exists>sky. s_sky a0 = Some sky \<and> s_sky a = Some sky
                 \<and> dateTime_of a0 sky
                     = (2011, 3, 6,
                        conf_value_double L (conf_child (externalConfig mn) ''sky'') ''hours'' 12.0))"
    if "isGeocentric mn" "\<not> conf_empty (conf_child (externalConfig mn) ''sky'')"
  proof -
    have "s_sky a0 \<noteq> None"
      using f(13) that by simp
    then obtain sky where "s_sky a0 = Some sky" by blast
    then show ?thesis
      using f(11) f(14) that same by simp
  qed
  have 2: "conf_value_double L (conf_child (externalConfig mn) ''sky'') ''hours'' 12.0 = 12.0"
    if "\<not> conf_hasChild (conf_child (externalConfig mn) ''sky'') ''hours''"
    using that by (simp add: conf_value_double_def conf_value_def)
  have 3: "s_sky a0 = None \<and> s_sky a = None" if "\<not> isGeocentric mn"
    using f(13) that same by simp
  show ?thesis
    using 1 2 3 by blast
qed

theorem sky_from_configuration_witness:
  "main_setup (example_lib 2) example_argv = Ready (example_app 2)
   \<and> run (example_lib 2) [] (example_app 2) = Inr (example_app 2)
   \<and> found_mapNode (example_lib 2) example_argv = Some (example_mapNode 2)
   \<and> isGeocentric (example_mapNode 2)
   \<and> \<not> conf_empty (conf_child (externalConfig (example_mapNode 2)) ''sky'')
   \<and> ''--sky'' \<notin> set (tl example_argv)
   \<and> useSky (example_app 2)
   \<and> (\<exists>sky. s_sky (example_app 2) = Some sky
         \<and> dateTime_of (example_app 2) sky = (2011, 3, 6, 9))"
proof -
  have r: "run (example_lib 2) [] (example_app 2) = Inr (example_app 2)"
    by simp
  have g: "isGeocentric (example_mapNode 2)"
    by (simp add: example_mapNode_def)
  have n: "''--sky'' \<notin> set (tl example_argv)"
    by (simp add: example_argv_def)
  have "useSky (example_app 2) \<and> (\<exists>sky. s_sky (example_app 2) = Some sky
         \<and> dateTime_of (example_app 2) sky = (2011, 3, 6, 9))"
    using sky_from_configuration [OF example_setup r example_found] g example_sky [of 2]
    by auto
  then show ?thesis
    using example_setup r example_found g example_sky(1) [of 2] n by blast
qed

text \<open>
  C10. The sky-time slider exists exactly when there is a sky node; it is created with
  the range 0.0 to 24.0 and the value 18.0, and with a SkySliderHandler. Every change
  of its value sets the date and time of the sky node to 6 March 2011 with the new
  value as the hour, and changes nothing else.
\<close>

theorem sky_slider:
  assumes "main_setup L argv = Ready a0" and "run L events a0 = Inr a"
  shows "skySlider a
           = (if s_sky a = None then None else Some \<lparr>sl_min = 0.0, sl_max = 24.0, sl_value = 18.0\<rparr>)
     \<and> (SkySliderHandler \<in> set (control_handlers a) \<longleftrightarrow> s_sky a \<noteq> None)
     \<and> (\<forall>i v. i < length (control_handlers a) \<and> control_handlers a ! i = SkySliderHandler \<longrightarrow>
           (\<exists>sky. s_sky a = Some sky
              \<and> step L (ControlEvent i (ValueChanged_float v)) a
                  = Inr (a\<lparr>dateTime_of := (dateTime_of a)(sky := (2011, 3, 6, v))\<rparr>)))"
proof -
  have same: "skySlider a = skySlider a0" "s_sky a = s_sky a0"
    "control_handlers a = control_handlers a0"
    using session_state(2) [OF assms] by (simp_all add: same_setup_def)
  have 12: "skySlider a
           = (if s_sky a = None then None else Some \<lparr>sl_min = 0.0, sl_max = 24.0, sl_value = 18.0\<rparr>)
     \<and> (SkySliderHandler \<in> set (control_handlers a) \<longleftrightarrow> s_sky a \<noteq> None)"
    using assms(1)
  proof (cases rule: main_setup_Ready)
    case (no_map earthNode)
    have "fresh a0"
      unfolding no_map(3) by (rule create_manipulator_fields)
    then show ?thesis
      unfolding same by (simp add: fresh_def)
  next
    case (with_map earthNode mn)
    show ?thesis
      unfolding same with_map(3) using ready_app_fields(8,9) [of L mn earthNode argv] by simp
  qed
  have 3: "\<exists>sky. s_sky a = Some sky
              \<and> step L (ControlEvent i (ValueChanged_float v)) a
                  = Inr (a\<lparr>dateTime_of := (dateTime_of a)(sky := (2011, 3, 6, v))\<rparr>)"
    if "i < length (control_handlers a)" "control_handlers a ! i = SkySliderHandler" for i v
  proof -
    have "SkySliderHandler \<in> set (control_handlers a)"
      using that by (metis nth_mem)
    then obtain sky where "s_sky a = Some sky"
      using 12 by auto
    then show ?thesis
      using that by (simp add: SkySliderHandler_onValueChanged_def)
  qed
  show ?thesis
    using 12 3 by blast
qed

theorem sky_slider_witness:
  "main_setup (example_lib 0) example_argv = Ready (example_app 0)
   \<and> run (example_lib 0) [] (example_app 0) = Inr (example_app 0)
   \<and> skySlider (example_app 0) = Some \<lparr>sl_min = 0, sl_max = 24, sl_value = 18\<rparr>
   \<and> (\<exists>i sky. i < length (control_handlers (example_app 0))
         \<and> control_handlers (example_app 0) ! i = SkySliderHandler
         \<and> s_sky (example_app 0) = Some sky
         \<and> step (example_lib 0) (ControlEvent i (ValueChanged_float 7.5)) (example_app 0)
             = Inr ((example_app 0)\<lparr>dateTime_of := (dateTime_of (example_app 0))
                      (sky := (2011, 3, 6, 7.5))\<rparr>))"
proof -
  have r: "run (example_lib 0) [] (example_app 0) = Inr (example_app 0)"
    by simp
  note f = ready_app_fields [of "example_lib 0" "example_mapNode 0" example_earth example_argv,
      folded example_app_def]
  have sky: "s_sky (example_app 0) \<noteq> None"
    using f(13) example_sky(1) [of 0] by (simp add: example_mapNode_def)
  note w = sky_slider [OF example_setup r]
  have 1: "skySlider (example_app 0) = Some \<lparr>sl_min = 0, sl_max = 24, sl_value = 18\<rparr>"
    using w sky by simp
  have "SkySliderHandler \<in> set (control_handlers (example_app 0))"
    using w sky by simp
  then obtain i where i: "i < length (control_handlers (example_app 0))"
    "control_handlers (example_app 0) ! i = SkySliderHandler"
    by (auto simp: in_set_conv_nth)
  then obtain sky where "s_sky (example_app 0) = Some sky"
    "step (example_lib 0) (ControlEvent i (ValueChanged_float 7.5)) (example_app 0)
             = Inr ((example_app 0)\<lparr>dateTime_of := (dateTime_of (example_app 0))
                      (sky := (2011, 3, 6, 7.5))\<rparr>)"
    using w by blast
  then show ?thesis
    using example_setup r 1 i by blast
qed

text \<open>
  C4, as the claim states it, fails: with fifteen viewpoints loaded the key ? is the
  key of the fifteenth viewpoint (\<open>'?' - '1' = 14\<close>), so the handler starts a
  transition to that viewpoint and leaves the visibility of the control panel as
  it is.
\<close>

theorem question_mark_with_15_viewpoints:
  "main_setup (example_lib 15) example_argv = Ready (example_app 15)
   \<and> step (example_lib 15) (GuiEvent (key_event CHR ''?'') example_view) (example_app 15)
       = Inr ((example_app 15)\<lparr>manips := (manips (example_app 15))
                (0 := setViewpoint (Viewpoint example_viewpoint) 4.5 (manips (example_app 15) 0))\<rparr>)
   \<and> visible_of ((example_app 15)\<lparr>manips := (manips (example_app 15))
                (0 := setViewpoint (Viewpoint example_viewpoint) 4.5 (manips (example_app 15) 0))\<rparr>)
       = visible_of (example_app 15)"
proof -
  obtain label where g: "gui_handlers (example_app 15)
      = (if loaded_viewpoints (example_mapNode 15) = [] then []
         else [ViewpointHandler (loaded_viewpoints (example_mapNode 15))])
        @ [MouseCoordsHandler label (Some (example_mapNode 15))]"
    using ready_app_fields(6) [of "example_lib 15" "example_mapNode 15" example_earth example_argv]
    by (auto simp: example_app_def)
  have k: "getEventType (key_event CHR ''?'') = KEYDOWN"
    "0 \<le> getKey (key_event CHR ''?'') - of_char CHR ''1''"
    "getKey (key_event CHR ''?'') - of_char CHR ''1''
       < int (length (loaded_viewpoints (example_mapNode 15)))"
    by (simp_all add: key_event_def example_viewpoints)
  have m: "s_manip (example_app 15) = Some 0"
    by (simp add: example_app_def ready_app_manip)
  have "step (example_lib 15) (GuiEvent (key_event CHR ''?'') example_view) (example_app 15)
      = map_sum id snd (ViewpointHandler_handle (example_lib 15)
          (loaded_viewpoints (example_mapNode 15)) (key_event CHR ''?'') (example_app 15))"
    using key_step [OF g k(1)] by (simp add: example_viewpoints)
  also have "\<dots> = Inr ((example_app 15)\<lparr>manips := (manips (example_app 15))
                (0 := setViewpoint (Viewpoint example_viewpoint) 4.5 (manips (example_app 15) 0))\<rparr>)"
    unfolding viewpoint_key_handle [OF k m]
    by (simp add: example_viewpoints key_event_def)
  finally show ?thesis
    using example_setup by simp
qed

text \<open>
  C4, amended. While between one and fourteen viewpoints are loaded, so that the
  ViewpointHandler is registered and ? is not the key of a viewpoint, a KEYDOWN event
  with the key ? sets the visibility of the control panel to the negation of its
  current visibility and changes nothing else; a second ? restores the state.
\<close>

theorem question_mark_toggles:
  assumes "main_setup L argv = Ready a0" and "run L events a0 = Inr a"
    and "found_mapNode L argv = Some mn"
    and "loaded_viewpoints mn \<noteq> []" and "length (loaded_viewpoints mn) < 15"
    and "getEventType ea = KEYDOWN" and "getKey ea = of_char CHR ''?''"
  shows "\<exists>panel. s_controlPanel a = Some panel
     \<and> step L (GuiEvent ea aa) a
         = Inr (a\<lparr>visible_of := (visible_of a)(panel := \<not> visible_of a panel)\<rparr>)
     \<and> step L (GuiEvent ea aa) (a\<lparr>visible_of := (visible_of a)(panel := \<not> visible_of a panel)\<rparr>)
         = Inr a"
proof -
  let ?vps = "loaded_viewpoints mn"
  obtain label where g: "gui_handlers a
      = (if ?vps = [] then [] else [ViewpointHandler ?vps]) @ [MouseCoordsHandler label (Some mn)]"
    using session_gui_handlers [OF assms(1,2,3)] by blast
  obtain panel where p: "s_controlPanel a = Some panel"
    using session_state(1) [OF assms(1,2)] g assms(4) by (auto simp: handlers_ok_def)
  let ?b = "a\<lparr>visible_of := (visible_of a)(panel := \<not> visible_of a panel)\<rparr>"
  have 1: "step L (GuiEvent ea aa) a = Inr ?b"
    using key_step [OF g assms(6), of L aa] question_mark_handle [OF assms(6,7,5) p, of L] assms(4)
    by simp
  have gb: "gui_handlers ?b
      = (if ?vps = [] then [] else [ViewpointHandler ?vps]) @ [MouseCoordsHandler label (Some mn)]"
    using g by simp
  have pb: "s_controlPanel ?b = Some panel"
    using p by simp
  have "step L (GuiEvent ea aa) ?b
      = Inr (?b\<lparr>visible_of := (visible_of ?b)(panel := \<not> visible_of ?b panel)\<rparr>)"
    using key_step [OF gb assms(6), of L aa] question_mark_handle [OF assms(6,7,5) pb, of L] assms(4)
    by simp
  also have "?b\<lparr>visible_of := (visible_of ?b)(panel := \<not> visible_of ?b panel)\<rparr> = a"
    by simp
  finally show ?thesis
    using p 1 by blast
qed

theorem question_mark_toggles_witness:
  "main_setup (example_lib 2) example_argv = Ready (example_app 2)
   \<and> run (example_lib 2) [] (example_app 2) = Inr (example_app 2)
   \<and> found_mapNode (example_lib 2) example_argv = Some (example_mapNode 2)
   \<and> length (loaded_viewpoints (example_mapNode 2)) = 2
   \<and> (\<exists>panel. s_controlPanel (example_app 2) = Some panel
        \<and> step (example_lib 2) (GuiEvent (key_event CHR ''?'') example_view) (example_app 2)
            = Inr ((example_app 2)\<lparr>visible_of := (visible_of (example_app 2))
                     (panel := \<not> visible_of (example_app 2) panel)\<rparr>)
        \<and> step (example_lib 2) (GuiEvent (key_event CHR ''?'') example_view)
              ((example_app 2)\<lparr>visible_of := (visible_of (example_app 2))
                     (panel := \<not> visible_of (example_app 2) panel)\<rparr>)
            = Inr (example_app 2))"
proof -
  have r: "run (example_lib 2) [] (example_app 2) = Inr (example_app 2)"
    by simp
  have v: "loaded_viewpoints (example_mapNode 2) \<noteq> []"
    "length (loaded_viewpoints (example_mapNode 2)) < 15"
    "length (loaded_viewpoints (example_mapNode 2)) = 2"
    by (simp_all add: example_viewpoints)
  have k: "getEventType (key_event CHR ''?'') = KEYDOWN"
    "getKey (key_event CHR ''?'') = of_char CHR ''?''"
    by (simp_all add: key_event_def)
  show ?thesis
    using question_mark_toggles [OF example_setup r example_found v(1,2) k, of example_view]
      example_setup r example_found v(3)
    by blast
qed

text \<open>
  C5, as the claim states it, fails: with seventy viewpoints loaded the key v is the
  key of the seventieth viewpoint (\<open>'v' - '1' = 69\<close>), so the handler starts a
  transition to that viewpoint, which changes the manipulator, and writes nothing to
  standard output.
\<close>

theorem v_with_70_viewpoints:
  "main_setup (example_lib 70) example_argv = Ready (example_app 70)
   \<and> step (example_lib 70) (GuiEvent (key_event CHR ''v'') example_view) (example_app 70)
       = Inr ((example_app 70)\<lparr>manips := (manips (example_app 70))
                (0 := setViewpoint (Viewpoint example_viewpoint) 4.5 (manips (example_app 70) 0))\<rparr>)
   \<and> cout ((example_app 70)\<lparr>manips := (manips (example_app 70))
                (0 := setViewpoint (Viewpoint example_viewpoint) 4.5 (manips (example_app 70) 0))\<rparr>)
       = cout (example_app 70)
   \<and> m_flight (setViewpoint (Viewpoint example_viewpoint) 4.5 (manips (example_app 70) 0))
       = Some (Viewpoint example_viewpoint, 4.5)"
proof -
  obtain label where g: "gui_handlers (example_app 70)
      = (if loaded_viewpoints (example_mapNode 70) = [] then []
         else [ViewpointHandler (loaded_viewpoints (example_mapNode 70))])
        @ [MouseCoordsHandler label (Some (example_mapNode 70))]"
    using ready_app_fields(6) [of "example_lib 70" "example_mapNode 70" example_earth example_argv]
    by (auto simp: example_app_def)
  have k: "getEventType (key_event CHR ''v'') = KEYDOWN"
    "0 \<le> getKey (key_event CHR ''v'') - of_char CHR ''1''"
    "getKey (key_event CHR ''v'') - of_char CHR ''1''
       < int (length (loaded_viewpoints (example_mapNode 70)))"
    by (simp_all add: key_event_def example_viewpoints)
  have m: "s_manip (example_app 70) = Some 0"
    by (simp add: example_app_def ready_app_manip)
  have "step (example_lib 70) (GuiEvent (key_event CHR ''v'') example_view) (example_app 70)
      = map_sum id snd (ViewpointHandler_handle (example_lib 70)
          (loaded_viewpoints (example_mapNode 70)) (key_event CHR ''v'') (example_app 70))"
    using key_step [OF g k(1)] by (simp add: example_viewpoints)
  also have "\<dots> = Inr ((example_app 70)\<lparr>manips := (manips (example_app 70))
                (0 := setViewpoint (Viewpoint example_viewpoint) 4.5 (manips (example_app 70) 0))\<rparr>)"
    unfolding viewpoint_key_handle [OF k m]
    by (simp add: example_viewpoints key_event_def)
  finally show ?thesis
    using example_setup by (simp add: setViewpoint_def)
qed

text \<open>
  C5, amended. While between one and sixty-nine viewpoints are loaded, so that the
  ViewpointHandler is registered and v is not the key of a viewpoint, a KEYDOWN event
  with the key v takes the current viewpoint of the manipulator, converts it to its
  configuration and appends that as XML, followed by a newline, to standard output;
  the viewpoint and the rest of the state stay as they are.
\<close>

theorem v_prints_viewpoint:
  assumes "main_setup L argv = Ready a0" and "run L events a0 = Inr a"
    and "found_mapNode L argv = Some mn"
    and "loaded_viewpoints mn \<noteq> []" and "length (loaded_viewpoints mn) < 70"
    and "getEventType ea = KEYDOWN" and "getKey ea = of_char CHR ''v''"
  shows "\<exists>m. s_manip a = Some m
     \<and> step L (GuiEvent ea aa) a
         = Inr (a\<lparr>cout := cout a @ xml_store L (getConfig (getViewpoint (manips a m)))
                             @ [CHR 0x0A]\<rparr>)"
proof -
  let ?vps = "loaded_viewpoints mn"
  obtain label where g: "gui_handlers a
      = (if ?vps = [] then [] else [ViewpointHandler ?vps]) @ [MouseCoordsHandler label (Some mn)]"
    using session_gui_handlers [OF assms(1,2,3)] by blast
  obtain m where m: "s_manip a = Some m"
    using session_state(1) [OF assms(1,2)] by (auto simp: handlers_ok_def)
  have "step L (GuiEvent ea aa) a
         = Inr (a\<lparr>cout := cout a @ xml_store L (getConfig (getViewpoint (manips a m)))
                             @ [CHR 0x0A]\<rparr>)"
    using key_step [OF g assms(6), of L aa] v_handle [OF assms(6,7,5) m, of L] assms(4)
    by simp
  then show ?thesis
    using m by blast
qed

theorem v_prints_viewpoint_witness:
  "main_setup (example_lib 2) example_argv = Ready (example_app 2)
   \<and> run (example_lib 2) [] (example_app 2) = Inr (example_app 2)
   \<and> found_mapNode (example_lib 2) example_argv = Some (example_mapNode 2)
   \<and> length (loaded_viewpoints (example_mapNode 2)) = 2
   \<and> (\<exists>m. s_manip (example_app 2) = Some m
        \<and> step (example_lib 2) (GuiEvent (key_event CHR ''v'') example_view) (example_app 2)
            = Inr ((example_app 2)\<lparr>cout := cout (example_app 2)
                     @ xml_store (example_lib 2)
                         (getConfig (getViewpoint (manips (example_app 2) m)))
                     @ [CHR 0x0A]\<rparr>))"
proof -
  have r: "run (example_lib 2) [] (example_app 2) = Inr (example_app 2)"
    by simp
  have v: "loaded_viewpoints (example_mapNode 2) \<noteq> []"
    "length (loaded_viewpoints (example_mapNode 2)) < 70"
    "length (loaded_viewpoints (example_mapNode 2)) = 2"
    by (simp_all add: example_viewpoints)
  have k: "getEventType (key_event CHR ''v'') = KEYDOWN"
    "getKey (key_event CHR ''v'') = of_char CHR ''v''"
    by (simp_all add: key_event_def)
  show ?thesis
    using v_prints_viewpoint [OF example_setup r example_found v(1,2) k, of example_view]
      example_setup r example_found v(3)
    by blast
qed


end
